theory Spec2Isabelle
  imports Main "HOL-Library.AList" "HOL-Library.Char_ord" "HOL-Library.List_Lexorder"
    "HOL-Library.Multiset"
begin

section \<open>Bulletins\<close>

text \<open>
  The report model of \<^verbatim>\<open>covid19br/common/models/full_report.py\<close> works on bulletin
  objects whose classes live in \<^verbatim>\<open>bulletin_models.py\<close>. A bulletin carries a date, a
  state, the set of its sources and two optional counters; a county bulletin adds the
  city. Python's \<^verbatim>\<open>None\<close> in a counter is \<open>None\<close> here, Python's unbounded integers
  are \<open>int\<close>, a \<^verbatim>\<open>datetime.date\<close> is its (year, month, day) triple and a member of
  the \<^verbatim>\<open>State\<close> enumeration is its value.
\<close>

type_synonym pydate = "int \<times> int \<times> int"
type_synonym State = string

record BulletinModel =
  date :: pydate
  state :: State
  sources :: "string set"
  confirmed_cases :: "int option"
  deaths :: "int option"

record CountyBulletinModel = BulletinModel +
  city :: string

text \<open>
  The argument of \<^verbatim>\<open>add_new_bulletin\<close> is dispatched with \<^verbatim>\<open>isinstance\<close> over the
  three bulletin classes; anything else falls into the last \<^verbatim>\<open>else\<close>.
\<close>

datatype Bulletin =
    CountyBulletin CountyBulletinModel
  | ImportedUndefinedBulletin BulletinModel
  | StateTotalBulletin BulletinModel
  | OtherBulletin

text \<open>
  Modelled from the spec: the property \<^verbatim>\<open>has_confirmed_cases\<close> of \<^verbatim>\<open>BulletinModel\<close>
  (section 4.1): whether the confirmed cases are recorded, independently of the deaths.
\<close>

definition has_confirmed_cases :: "'a BulletinModel_scheme \<Rightarrow> bool" where
  "has_confirmed_cases b = (confirmed_cases b \<noteq> None)"

text \<open>
  Modelled from the spec: the property \<^verbatim>\<open>has_deaths\<close> of \<^verbatim>\<open>BulletinModel\<close>
  (section 4.1): whether the deaths are recorded, independently of the confirmed cases.
\<close>

definition has_deaths :: "'a BulletinModel_scheme \<Rightarrow> bool" where
  "has_deaths b = (deaths b \<noteq> None)"

text \<open>
  Modelled from the spec: the property \<^verbatim>\<open>is_empty\<close> of \<^verbatim>\<open>BulletinModel\<close>
  (section 4.1): neither confirmed cases nor deaths are recorded.
\<close>

definition is_empty :: "'a BulletinModel_scheme \<Rightarrow> bool" where
  "is_empty b = (\<not> has_confirmed_cases b \<and> \<not> has_deaths b)"

text \<open>
  Modelled from the spec: the property \<^verbatim>\<open>is_complete\<close> of \<^verbatim>\<open>BulletinModel\<close>
  (section 4.1): both confirmed cases and deaths are recorded.
\<close>

definition is_complete :: "'a BulletinModel_scheme \<Rightarrow> bool" where
  "is_complete b = (has_confirmed_cases b \<and> has_deaths b)"

text \<open>
  Modelled from the spec: the method \<^verbatim>\<open>merge_data\<close> of \<^verbatim>\<open>CountyBulletinModel\<close>
  (section 4.1): the receiver takes from the other bulletin every counter it lacks and
  keeps the ones it has. The mutated receiver is the result.
\<close>

definition merge_data :: "CountyBulletinModel \<Rightarrow> CountyBulletinModel \<Rightarrow> CountyBulletinModel" where
  "merge_data self other =
     (let s1 = (if \<not> has_confirmed_cases self
                then self\<lparr>confirmed_cases := confirmed_cases other\<rparr> else self)
      in if \<not> has_deaths s1 then s1\<lparr>deaths := deaths other\<rparr> else s1)"

text \<open>
  Modelled from the spec: the number a counter of the automatic total stands for
  (section 3): the counters are a running sum of contributions, so a counter that is
  not recorded yet counts as zero.
\<close>

definition counted :: "int option \<Rightarrow> int" where
  "counted c = (case c of None \<Rightarrow> 0 | Some v \<Rightarrow> v)"

text \<open>
  Modelled from the spec: the method \<^verbatim>\<open>increase_confirmed_cases\<close> of
  \<^verbatim>\<open>StateTotalBulletinModel\<close> (section 3): the value is added to the running sum of
  confirmed cases.
\<close>

definition increase_confirmed_cases :: "BulletinModel \<Rightarrow> int \<Rightarrow> BulletinModel" where
  "increase_confirmed_cases t v = t\<lparr>confirmed_cases := Some (counted (confirmed_cases t) + v)\<rparr>"

text \<open>
  Modelled from the spec: the method \<^verbatim>\<open>decrease_confirmed_cases\<close> of
  \<^verbatim>\<open>StateTotalBulletinModel\<close> (sections 3 and 4.2): the value is subtracted from the
  running sum of confirmed cases.
\<close>

definition decrease_confirmed_cases :: "BulletinModel \<Rightarrow> int \<Rightarrow> BulletinModel" where
  "decrease_confirmed_cases t v = t\<lparr>confirmed_cases := Some (counted (confirmed_cases t) - v)\<rparr>"

text \<open>
  Modelled from the spec: the method \<^verbatim>\<open>increase_deaths\<close> of
  \<^verbatim>\<open>StateTotalBulletinModel\<close> (section 3): the value is added to the running sum of
  deaths.
\<close>

definition increase_deaths :: "BulletinModel \<Rightarrow> int \<Rightarrow> BulletinModel" where
  "increase_deaths t v = t\<lparr>deaths := Some (counted (deaths t) + v)\<rparr>"

text \<open>
  Modelled from the spec: the method \<^verbatim>\<open>decrease_deaths\<close> of
  \<^verbatim>\<open>StateTotalBulletinModel\<close> (sections 3 and 4.2): the value is subtracted from the
  running sum of deaths.
\<close>

definition decrease_deaths :: "BulletinModel \<Rightarrow> int \<Rightarrow> BulletinModel" where
  "decrease_deaths t v = t\<lparr>deaths := Some (counted (deaths t) - v)\<rparr>"

section \<open>Warnings and qualities\<close>

text \<open>
  The members of \<^verbatim>\<open>ReportQuality\<close> and \<^verbatim>\<open>WarningType\<close> that the report model names.
  The string value of a warning type (\<^verbatim>\<open>slug.value\<close>) is declared in
  \<^verbatim>\<open>covid19br/common/warnings.py\<close>; the functions below take it as the parameter
  \<open>val\<close>.
\<close>

datatype ReportQuality = COUNTY_BULLETINS | UNDEFINED_OR_IMPORTED_CASES | ONLY_TOTAL

datatype WarningType =
    SOURCES_DONT_MATCH
  | MISSING_COUNTY_BULLETINS
  | MISSING_IMPORTED_UNDEFINED_CASES
  | ONLY_TOTAL_WARNING
  | MISSING_CONFIRMED_CASES
  | MISSING_DEATHS
  | NO_OFFICIAL_TOTAL
  | TOTAL_DONT_MATCH

text \<open>
  The descriptions are Portuguese sentences, two of them f-strings. A description is
  kept as the fixed sentence it belongs to together with the values interpolated into
  it: the two source sets for diverging county sources, and for diverging totals the
  sources and counters of the automatic total followed by those of every official total.
\<close>

datatype Description =
    SourcesText "string set" "string set"
  | FixedText WarningType
  | TotalsText "string set" "int option" "int option" "(string set \<times> int option \<times> int option) list"

record BulletinWarning =
  slug :: string
  description :: "Description option"

datatype error = BadReportError string | AttributeError

section \<open>The report\<close>

text \<open>
  The attributes of \<^verbatim>\<open>FullReportModel\<close>. The private attributes lose their leading
  underscore (\<open>priv_\<close> instead); the report's \<^verbatim>\<open>state\<close> is \<open>report_state\<close>, since
  bulletins have a field of that name. The dictionary of county bulletins is an
  association list in insertion order, as a Python \<^verbatim>\<open>dict\<close> iterates: \<^verbatim>\<open>d[k] = v\<close>
  is \<^const>\<open>AList.update\<close> (in place for a key that is present, at the end for a new
  one) and \<^verbatim>\<open>d.pop(k, None)\<close> is \<^const>\<open>map_of\<close> with \<^const>\<open>AList.delete\<close>.
\<close>

record FullReportModel =
  reference_date :: pydate
  published_at :: pydate
  report_state :: State
  undefined_or_imported_cases_bulletin :: "BulletinModel option"
  priv_official_total_bulletins :: "BulletinModel list"
  priv_county_bulletins :: "(int \<times> CountyBulletinModel) list"
  priv_auto_calculated_total :: BulletinModel
  priv_expected_qualities :: "ReportQuality list"
  priv_warnings :: "BulletinWarning set"

text \<open>
  Modelled from the spec: the constructors of \<^verbatim>\<open>StateTotalBulletinModel\<close> and
  \<^verbatim>\<open>ImportedUndefinedBulletinModel\<close> called with a date, a state and a source only
  (sections 3 and 8): an empty placeholder tagged with that source.
\<close>

definition new_bulletin :: "pydate \<Rightarrow> State \<Rightarrow> string \<Rightarrow> BulletinModel" where
  "new_bulletin d s src =
     \<lparr>date = d, state = s, sources = {src}, confirmed_cases = None, deaths = None\<rparr>"

text \<open>
  The two source tags of the constructor, the Portuguese for "automatic sum" and
  "not found", as the bytes of their UTF-8 encoding.
\<close>

definition soma_automatica :: string where
  "soma_automatica = ''Soma autom'' @ [CHR 0xC3, CHR 0xA1] @ ''tica''"

definition nao_encontrada :: string where
  "nao_encontrada = ''N'' @ [CHR 0xC3, CHR 0xA3] @ ''o encontrada''"

text \<open>
  \<^verbatim>\<open>__init__\<close>: an empty list of qualities raises \<^verbatim>\<open>BadReportError\<close>; otherwise
  the attributes are set, the imported/undefined bulletin to its placeholder.
\<close>

definition init :: "pydate \<Rightarrow> pydate \<Rightarrow> State \<Rightarrow> ReportQuality list \<Rightarrow> error + FullReportModel" where
  "init reference_date' published_at' state' qualities =
     (if qualities = [] then Inl (BadReportError ''A report can't have no qualities.'')
      else Inr \<lparr>reference_date = reference_date',
                published_at = published_at',
                report_state = state',
                undefined_or_imported_cases_bulletin =
                  Some (new_bulletin reference_date' state' nao_encontrada),
                priv_official_total_bulletins = [],
                priv_county_bulletins = [],
                priv_auto_calculated_total = new_bulletin reference_date' state' soma_automatica,
                priv_expected_qualities = qualities,
                priv_warnings = {}\<rparr>)"

text \<open>
  The properties \<^verbatim>\<open>total_bulletin\<close>, \<^verbatim>\<open>county_bulletins\<close> and
  \<^verbatim>\<open>has_undefined_or_imported_cases\<close>. The imported/undefined attribute is declared
  optional, and \<^verbatim>\<open>bool\<close> of it is false for \<^verbatim>\<open>None\<close> and true for a bulletin.
\<close>

definition total_bulletin :: "FullReportModel \<Rightarrow> BulletinModel" where
  "total_bulletin r =
     (case priv_official_total_bulletins r of
        [] \<Rightarrow> priv_auto_calculated_total r
      | b # _ \<Rightarrow> b)"

definition county_bulletins :: "FullReportModel \<Rightarrow> CountyBulletinModel list" where
  "county_bulletins r = map snd (priv_county_bulletins r)"

definition has_undefined_or_imported_cases :: "FullReportModel \<Rightarrow> bool" where
  "has_undefined_or_imported_cases r =
     (case undefined_or_imported_cases_bulletin r of
        None \<Rightarrow> False
      | Some b \<Rightarrow> \<not> is_empty b)"

text \<open>
  Modelled from the spec: membership in the set of warnings (section 3): warnings are
  deduplicated by kind, and a warning whose kind is already present leaves the set as it
  is.
\<close>

definition warning_set_add :: "BulletinWarning \<Rightarrow> BulletinWarning set \<Rightarrow> BulletinWarning set" where
  "warning_set_add w ws = (if slug w \<in> slug ` ws then ws else insert w ws)"

text \<open>\<^verbatim>\<open>add_warning\<close>, with the value of the warning type taken from \<open>val\<close>.\<close>

definition add_warning ::
  "(WarningType \<Rightarrow> string) \<Rightarrow> WarningType \<Rightarrow> Description option \<Rightarrow> FullReportModel \<Rightarrow> FullReportModel" where
  "add_warning val slug' description' r =
     (let warning = \<lparr>slug = val slug', description = description'\<rparr>
      in r\<lparr>priv_warnings := warning_set_add warning (priv_warnings r)\<rparr>)"

text \<open>
  \<^verbatim>\<open>_pop_county_bulletin\<close>: the popped bulletin, if any, and the report without it.
  A bulletin object is true in a condition, so \<^verbatim>\<open>if existent_bulletin\<close> asks whether
  the key was in the dictionary.
\<close>

definition pop_county_bulletin ::
  "int \<Rightarrow> FullReportModel \<Rightarrow> CountyBulletinModel option \<times> FullReportModel" where
  "pop_county_bulletin bulletin_key r =
     (let existent_bulletin = map_of (priv_county_bulletins r) bulletin_key;
          r1 = r\<lparr>priv_county_bulletins := AList.delete bulletin_key (priv_county_bulletins r)\<rparr>
      in case existent_bulletin of
           None \<Rightarrow> (None, r1)
         | Some e \<Rightarrow>
             (let r2 = (if has_confirmed_cases e
                        then r1\<lparr>priv_auto_calculated_total :=
                                 decrease_confirmed_cases (priv_auto_calculated_total r1)
                                   (the (confirmed_cases e))\<rparr>
                        else r1);
                  r3 = (if has_deaths e
                        then r2\<lparr>priv_auto_calculated_total :=
                                 decrease_deaths (priv_auto_calculated_total r2) (the (deaths e))\<rparr>
                        else r2)
              in (Some e, r3)))"

text \<open>
  \<^verbatim>\<open>_compare_county_bulletins_and_return_the_completest\<close>. The equality of two county
  bulletins (\<^verbatim>\<open>__eq__\<close> of \<^verbatim>\<open>CountyBulletinModel\<close>) is the parameter \<open>eq\<close>.
\<close>

definition compare_county_bulletins_and_return_the_completest ::
  "(CountyBulletinModel \<Rightarrow> CountyBulletinModel \<Rightarrow> bool) \<Rightarrow> (WarningType \<Rightarrow> string) \<Rightarrow>
   CountyBulletinModel \<Rightarrow> CountyBulletinModel \<Rightarrow> FullReportModel \<Rightarrow>
   CountyBulletinModel \<times> FullReportModel" where
  "compare_county_bulletins_and_return_the_completest eq val existent_bulletin new_bulletin' r =
     (let both_have_deaths = (has_deaths existent_bulletin \<and> has_deaths new_bulletin');
          both_have_confirmed_cases =
            (has_confirmed_cases existent_bulletin \<and> has_confirmed_cases new_bulletin')
      in if eq existent_bulletin new_bulletin' then (existent_bulletin, r)
         else
           (let r1 = (if (both_have_deaths \<and> deaths existent_bulletin \<noteq> deaths new_bulletin')
                         \<or> (both_have_confirmed_cases
                            \<and> confirmed_cases existent_bulletin \<noteq> confirmed_cases new_bulletin')
                      then add_warning val SOURCES_DONT_MATCH
                             (Some (SourcesText (sources existent_bulletin) (sources new_bulletin'))) r
                      else r)
            in if is_complete existent_bulletin then (existent_bulletin, r1)
               else if is_complete new_bulletin' then (new_bulletin', r1)
               else (merge_data existent_bulletin new_bulletin', r1)))"

text \<open>
  Lines 101 to 106 of \<^verbatim>\<open>add_new_bulletin\<close>, shared by the county and the
  imported/undefined branch.
\<close>

definition add_to_auto_calculated_total ::
  "'a BulletinModel_scheme \<Rightarrow> FullReportModel \<Rightarrow> FullReportModel" where
  "add_to_auto_calculated_total bulletin r =
     (let r1 = (if has_confirmed_cases bulletin
                then r\<lparr>priv_auto_calculated_total :=
                        increase_confirmed_cases (priv_auto_calculated_total r)
                          (the (confirmed_cases bulletin))\<rparr>
                else r)
      in if has_deaths bulletin
         then r1\<lparr>priv_auto_calculated_total :=
                  increase_deaths (priv_auto_calculated_total r1) (the (deaths bulletin))\<rparr>
         else r1)"

text \<open>
  \<^verbatim>\<open>add_new_bulletin\<close>. The key of a county bulletin (\<^verbatim>\<open>hash(bulletin)\<close>, that is
  \<^verbatim>\<open>__hash__\<close> of \<^verbatim>\<open>CountyBulletinModel\<close>) is the parameter \<open>hash_of\<close>.
\<close>

fun add_new_bulletin ::
  "(CountyBulletinModel \<Rightarrow> int) \<Rightarrow> (CountyBulletinModel \<Rightarrow> CountyBulletinModel \<Rightarrow> bool) \<Rightarrow>
   (WarningType \<Rightarrow> string) \<Rightarrow> Bulletin \<Rightarrow> FullReportModel \<Rightarrow> FullReportModel" where
  "add_new_bulletin hash_of eq val (CountyBulletin bulletin) r =
     (let bulletin_key = hash_of bulletin;
          (existent_bulletin, r1) = pop_county_bulletin bulletin_key r;
          (bulletin', r2) =
            (case existent_bulletin of
               Some e \<Rightarrow> compare_county_bulletins_and_return_the_completest eq val e bulletin r1
             | None \<Rightarrow> (bulletin, r1));
          r3 = r2\<lparr>priv_county_bulletins :=
                   AList.update bulletin_key bulletin' (priv_county_bulletins r2)\<rparr>
      in add_to_auto_calculated_total bulletin' r3)"
| "add_new_bulletin hash_of eq val (ImportedUndefinedBulletin bulletin) r =
     add_to_auto_calculated_total bulletin
       (r\<lparr>undefined_or_imported_cases_bulletin := Some bulletin\<rparr>)"
| "add_new_bulletin hash_of eq val (StateTotalBulletin bulletin) r =
     (if \<not> is_empty bulletin
      then r\<lparr>priv_official_total_bulletins := priv_official_total_bulletins r @ [bulletin]\<rparr>
      else r)"
| "add_new_bulletin hash_of eq val OtherBulletin r = r"

text \<open>
  \<^verbatim>\<open>check_total_death_cases\<close> and \<^verbatim>\<open>check_total_confirmed_cases\<close>; \<^verbatim>\<open>all\<close> over
  the list comprehension is \<^const>\<open>list_all\<close>.
\<close>

definition check_total_death_cases :: "FullReportModel \<Rightarrow> bool" where
  "check_total_death_cases r =
     (if priv_official_total_bulletins r = [] then False
      else (let auto_calculated_deaths = deaths (priv_auto_calculated_total r)
            in list_all (\<lambda>official_bulletin. auto_calculated_deaths = deaths official_bulletin)
                 (priv_official_total_bulletins r)))"

definition check_total_confirmed_cases :: "FullReportModel \<Rightarrow> bool" where
  "check_total_confirmed_cases r =
     (if priv_official_total_bulletins r = [] then False
      else (let auto_calculated_cases = confirmed_cases (priv_auto_calculated_total r)
            in list_all (\<lambda>official_bulletin. auto_calculated_cases = confirmed_cases official_bulletin)
                 (priv_official_total_bulletins r)))"


text \<open>
  \<^verbatim>\<open>to_csv_rows\<close>. The row of a bulletin (\<^verbatim>\<open>to_csv_row\<close> of each bulletin class) is the
  parameter \<open>to_csv_row\<close>. The loop over the sorted county bulletins is \<open>csv_loop\<close>;
  \<^verbatim>\<open>sorted\<close> is stable, as \<^const>\<open>sort_key\<close> is, and compares the city names as
  Python compares strings, code point by code point. Reading \<^verbatim>\<open>to_csv_row\<close> from an
  imported/undefined attribute that holds \<^verbatim>\<open>None\<close> raises.
\<close>

fun csv_loop :: "(Bulletin \<Rightarrow> 'row) \<Rightarrow> CountyBulletinModel list \<Rightarrow> 'row list \<Rightarrow> 'row list" where
  "csv_loop to_csv_row [] rows = rows"
| "csv_loop to_csv_row (bulletin # rest) rows =
     csv_loop to_csv_row rest
       (if \<not> is_empty bulletin then rows @ [to_csv_row (CountyBulletin bulletin)] else rows)"

definition to_csv_rows :: "(Bulletin \<Rightarrow> 'row) \<Rightarrow> FullReportModel \<Rightarrow> error + 'row list" where
  "to_csv_rows to_csv_row r =
     (let rows = csv_loop to_csv_row (sort_key city (county_bulletins r)) []
      in case undefined_or_imported_cases_bulletin r of
           None \<Rightarrow> Inl AttributeError
         | Some u \<Rightarrow>
             Inr (rows @ [to_csv_row (ImportedUndefinedBulletin u)]
                       @ [to_csv_row (StateTotalBulletin (total_bulletin r))]))"

text \<open>\<^verbatim>\<open>_auto_detect_warnings\<close>, one binding for each \<^verbatim>\<open>if\<close> of the method.\<close>

definition auto_detect_warnings :: "(WarningType \<Rightarrow> string) \<Rightarrow> FullReportModel \<Rightarrow> FullReportModel" where
  "auto_detect_warnings val r =
     (let r1 = (if COUNTY_BULLETINS \<in> set (priv_expected_qualities r) \<and> priv_county_bulletins r = []
                then add_warning val MISSING_COUNTY_BULLETINS
                       (Some (FixedText MISSING_COUNTY_BULLETINS)) r
                else r);
          r2 = (if UNDEFINED_OR_IMPORTED_CASES \<in> set (priv_expected_qualities r1)
                   \<and> \<not> has_undefined_or_imported_cases r1
                then add_warning val MISSING_IMPORTED_UNDEFINED_CASES
                       (Some (FixedText MISSING_IMPORTED_UNDEFINED_CASES)) r1
                else r1);
          r3 = (if ONLY_TOTAL \<in> set (priv_expected_qualities r2)
                then add_warning val ONLY_TOTAL_WARNING (Some (FixedText ONLY_TOTAL_WARNING)) r2
                else r2);
          r4 = (if \<not> has_confirmed_cases (total_bulletin r3)
                then add_warning val MISSING_CONFIRMED_CASES
                       (Some (FixedText MISSING_CONFIRMED_CASES)) r3
                else r3);
          r5 = (if \<not> has_deaths (total_bulletin r4)
                then add_warning val MISSING_DEATHS (Some (FixedText MISSING_DEATHS)) r4
                else r4)
      in if priv_official_total_bulletins r5 = []
         then add_warning val NO_OFFICIAL_TOTAL (Some (FixedText NO_OFFICIAL_TOTAL)) r5
         else if \<not> is_empty (priv_auto_calculated_total r5)
                 \<and> (\<not> check_total_confirmed_cases r5 \<or> \<not> check_total_death_cases r5)
         then add_warning val TOTAL_DONT_MATCH
                (Some (TotalsText (sources (priv_auto_calculated_total r5))
                         (confirmed_cases (priv_auto_calculated_total r5))
                         (deaths (priv_auto_calculated_total r5))
                         (map (\<lambda>bulletin. (sources bulletin, confirmed_cases bulletin, deaths bulletin))
                            (priv_official_total_bulletins r5)))) r5
         else r5)"

text \<open>Python's \<^verbatim>\<open>sep.join(xs)\<close>.\<close>

fun join :: "string \<Rightarrow> string list \<Rightarrow> string" where
  "join sep [] = []"
| "join sep [x] = x"
| "join sep (x # y # ys) = x @ sep @ join sep (y # ys)"

text \<open>
  \<^verbatim>\<open>warnings_slug\<close>: the property detects the warnings first, which changes the report,
  so it returns the string and the report it leaves behind.
\<close>

definition warnings_slug :: "(WarningType \<Rightarrow> string) \<Rightarrow> FullReportModel \<Rightarrow> string \<times> FullReportModel" where
  "warnings_slug val r =
     (let r1 = auto_detect_warnings val r
      in if priv_warnings r1 = {} then ([], r1)
         else (let warnings = slug ` priv_warnings r1
               in (''__'' @ join ''__'' (sorted_list_of_set warnings), r1)))"

text \<open>A sequence of \<^verbatim>\<open>add_new_bulletin\<close> calls on one report, first call first.\<close>

fun add_all ::
  "(CountyBulletinModel \<Rightarrow> int) \<Rightarrow> (CountyBulletinModel \<Rightarrow> CountyBulletinModel \<Rightarrow> bool) \<Rightarrow>
   (WarningType \<Rightarrow> string) \<Rightarrow> Bulletin list \<Rightarrow> FullReportModel \<Rightarrow> FullReportModel" where
  "add_all hash_of eq val [] r = r"
| "add_all hash_of eq val (b # bs) r = add_all hash_of eq val bs (add_new_bulletin hash_of eq val b r)"

text \<open>
  What the stored bulletins contribute to the automatic total: the counters of the
  county bulletins in the dictionary and of the imported/undefined bulletin, a counter
  that is not recorded counting as zero.
\<close>

definition stored_confirmed_cases :: "FullReportModel \<Rightarrow> int" where
  "stored_confirmed_cases r =
     sum_list (map (\<lambda>b. counted (confirmed_cases b)) (county_bulletins r))
     + (case undefined_or_imported_cases_bulletin r of
          None \<Rightarrow> 0 | Some u \<Rightarrow> counted (confirmed_cases u))"

definition stored_deaths :: "FullReportModel \<Rightarrow> int" where
  "stored_deaths r =
     sum_list (map (\<lambda>b. counted (deaths b)) (county_bulletins r))
     + (case undefined_or_imported_cases_bulletin r of
          None \<Rightarrow> 0 | Some u \<Rightarrow> counted (deaths u))"


section \<open>The detected warnings as a list\<close>

text \<open>
  Two auxiliary functions for reasoning about \<^const>\<open>auto_detect_warnings\<close>: the
  warnings whose conditions hold in a report, in the order of the method's \<^verbatim>\<open>if\<close>s,
  and the insertion of a list of warnings. Neither depends on the warnings the report
  already holds.
\<close>

definition detected :: "(WarningType \<Rightarrow> string) \<Rightarrow> FullReportModel \<Rightarrow> BulletinWarning list" where
  "detected val r =
     (if COUNTY_BULLETINS \<in> set (priv_expected_qualities r) \<and> priv_county_bulletins r = []
      then [\<lparr>slug = val MISSING_COUNTY_BULLETINS,
             description = Some (FixedText MISSING_COUNTY_BULLETINS)\<rparr>] else [])
     @ (if UNDEFINED_OR_IMPORTED_CASES \<in> set (priv_expected_qualities r)
           \<and> \<not> has_undefined_or_imported_cases r
        then [\<lparr>slug = val MISSING_IMPORTED_UNDEFINED_CASES,
               description = Some (FixedText MISSING_IMPORTED_UNDEFINED_CASES)\<rparr>] else [])
     @ (if ONLY_TOTAL \<in> set (priv_expected_qualities r)
        then [\<lparr>slug = val ONLY_TOTAL_WARNING,
               description = Some (FixedText ONLY_TOTAL_WARNING)\<rparr>] else [])
     @ (if \<not> has_confirmed_cases (total_bulletin r)
        then [\<lparr>slug = val MISSING_CONFIRMED_CASES,
               description = Some (FixedText MISSING_CONFIRMED_CASES)\<rparr>] else [])
     @ (if \<not> has_deaths (total_bulletin r)
        then [\<lparr>slug = val MISSING_DEATHS, description = Some (FixedText MISSING_DEATHS)\<rparr>] else [])
     @ (if priv_official_total_bulletins r = []
        then [\<lparr>slug = val NO_OFFICIAL_TOTAL, description = Some (FixedText NO_OFFICIAL_TOTAL)\<rparr>]
        else if \<not> is_empty (priv_auto_calculated_total r)
                \<and> (\<not> check_total_confirmed_cases r \<or> \<not> check_total_death_cases r)
        then [\<lparr>slug = val TOTAL_DONT_MATCH,
               description =
                 Some (TotalsText (sources (priv_auto_calculated_total r))
                         (confirmed_cases (priv_auto_calculated_total r))
                         (deaths (priv_auto_calculated_total r))
                         (map (\<lambda>bulletin. (sources bulletin, confirmed_cases bulletin, deaths bulletin))
                            (priv_official_total_bulletins r)))\<rparr>]
        else [])"

definition add_warnings :: "BulletinWarning list \<Rightarrow> FullReportModel \<Rightarrow> FullReportModel" where
  "add_warnings ws r = r\<lparr>priv_warnings := fold warning_set_add ws (priv_warnings r)\<rparr>"

section \<open>Sums over an ingestion sequence\<close>

text \<open>
  Auxiliary functions for the accounting of the automatic total: what the county
  bulletins in the dictionary contribute, and the imported/undefined bulletins of a
  sequence of \<^verbatim>\<open>add_new_bulletin\<close> arguments, in the order of the calls.
\<close>

definition county_confirmed_cases :: "FullReportModel \<Rightarrow> int" where
  "county_confirmed_cases r = sum_list (map (\<lambda>b. counted (confirmed_cases b)) (county_bulletins r))"

definition county_deaths :: "FullReportModel \<Rightarrow> int" where
  "county_deaths r = sum_list (map (\<lambda>b. counted (deaths b)) (county_bulletins r))"

fun imported :: "Bulletin list \<Rightarrow> BulletinModel list" where
  "imported [] = []"
| "imported (ImportedUndefinedBulletin i # bs) = i # imported bs"
| "imported (_ # bs) = imported bs"

section \<open>Example inputs\<close>

text \<open>
  Concrete values for the parameters and for bulletins and reports, on which the
  theorems below are instantiated: a key computed from state and city, warning values
  that differ from one another, and the report that \<^const>\<open>init\<close> builds for
  Sao Paulo on 14 March 2021.
\<close>

definition example_hash :: "CountyBulletinModel \<Rightarrow> int" where
  "example_hash b = int (length (state b)) + int (length (city b))"

definition example_val :: "WarningType \<Rightarrow> string" where
  "example_val w =
     (case w of
        SOURCES_DONT_MATCH \<Rightarrow> ''sources-dont-match''
      | MISSING_COUNTY_BULLETINS \<Rightarrow> ''missing-county-bulletins''
      | MISSING_IMPORTED_UNDEFINED_CASES \<Rightarrow> ''missing-imported-undefined-cases''
      | ONLY_TOTAL_WARNING \<Rightarrow> ''only-total''
      | MISSING_CONFIRMED_CASES \<Rightarrow> ''missing-confirmed-cases''
      | MISSING_DEATHS \<Rightarrow> ''missing-deaths''
      | NO_OFFICIAL_TOTAL \<Rightarrow> ''no-official-total''
      | TOTAL_DONT_MATCH \<Rightarrow> ''total-dont-match'')"

definition example_county :: "string \<Rightarrow> string \<Rightarrow> int option \<Rightarrow> int option \<Rightarrow> CountyBulletinModel" where
  "example_county c src x y =
     \<lparr>date = (2021, 3, 14), state = ''SP'', sources = {src},
      confirmed_cases = x, deaths = y, city = c\<rparr>"

definition example_bulletin :: "string \<Rightarrow> int option \<Rightarrow> int option \<Rightarrow> BulletinModel" where
  "example_bulletin src x y =
     \<lparr>date = (2021, 3, 14), state = ''SP'', sources = {src}, confirmed_cases = x, deaths = y\<rparr>"

definition example_report :: FullReportModel where
  "example_report =
     \<lparr>reference_date = (2021, 3, 14), published_at = (2021, 3, 15), report_state = ''SP'',
      undefined_or_imported_cases_bulletin = Some (new_bulletin (2021, 3, 14) ''SP'' nao_encontrada),
      priv_official_total_bulletins = [],
      priv_county_bulletins = [],
      priv_auto_calculated_total = new_bulletin (2021, 3, 14) ''SP'' soma_automatica,
      priv_expected_qualities = [COUNTY_BULLETINS],
      priv_warnings = {}\<rparr>"

section \<open>Choosing the total and checking it\<close>

text \<open>
  C5: in every report state \<^verbatim>\<open>total_bulletin\<close> is the first official total when the
  list of official totals is not empty, whatever the automatic total holds, and the
  automatic total when the list is empty.
\<close>

theorem total_bulletin_official_first:
  "(\<forall>b bs. priv_official_total_bulletins r = b # bs \<longrightarrow> total_bulletin r = b)
   \<and> (priv_official_total_bulletins r = [] \<longrightarrow> total_bulletin r = priv_auto_calculated_total r)"
  by (simp add: total_bulletin_def)

theorem total_bulletin_official_first_witness:
  "total_bulletin (example_report\<lparr>priv_official_total_bulletins :=
       [example_bulletin ''gov'' (Some 12) (Some 1), example_bulletin ''ms'' (Some 13) (Some 1)],
       priv_auto_calculated_total := example_bulletin ''sum'' (Some 10) (Some 1)\<rparr>)
     = example_bulletin ''gov'' (Some 12) (Some 1)
   \<and> total_bulletin (example_report\<lparr>priv_auto_calculated_total :=
       example_bulletin ''sum'' (Some 10) (Some 1)\<rparr>)
     = example_bulletin ''sum'' (Some 10) (Some 1)"
  using total_bulletin_official_first
          [of "example_report\<lparr>priv_official_total_bulletins :=
                 [example_bulletin ''gov'' (Some 12) (Some 1),
                  example_bulletin ''ms'' (Some 13) (Some 1)],
               priv_auto_calculated_total := example_bulletin ''sum'' (Some 10) (Some 1)\<rparr>"]
        total_bulletin_official_first
          [of "example_report\<lparr>priv_auto_calculated_total :=
                 example_bulletin ''sum'' (Some 10) (Some 1)\<rparr>"]
  by (simp add: example_report_def)

text \<open>
  C6: \<^verbatim>\<open>check_total_death_cases\<close> and \<^verbatim>\<open>check_total_confirmed_cases\<close> are false
  when no official total is stored; otherwise each is true exactly when the automatic
  total's counter equals that counter of every stored official total, so one official
  total that disagrees makes the check false whatever the others hold. Counters are
  compared as Python compares them: \<^verbatim>\<open>None\<close> equals \<^verbatim>\<open>None\<close> only.
\<close>

theorem check_totals_all_agree:
  "(priv_official_total_bulletins r = [] \<longrightarrow>
      \<not> check_total_death_cases r \<and> \<not> check_total_confirmed_cases r)
   \<and> (priv_official_total_bulletins r \<noteq> [] \<longrightarrow>
      (check_total_death_cases r \<longleftrightarrow>
         (\<forall>b \<in> set (priv_official_total_bulletins r). deaths b = deaths (priv_auto_calculated_total r)))
      \<and> (check_total_confirmed_cases r \<longleftrightarrow>
         (\<forall>b \<in> set (priv_official_total_bulletins r).
            confirmed_cases b = confirmed_cases (priv_auto_calculated_total r))))
   \<and> (\<forall>b \<in> set (priv_official_total_bulletins r).
        (deaths b \<noteq> deaths (priv_auto_calculated_total r) \<longrightarrow> \<not> check_total_death_cases r)
        \<and> (confirmed_cases b \<noteq> confirmed_cases (priv_auto_calculated_total r)
             \<longrightarrow> \<not> check_total_confirmed_cases r))"
proof -
  have d: "priv_official_total_bulletins r \<noteq> [] \<Longrightarrow>
      check_total_death_cases r \<longleftrightarrow>
         (\<forall>b \<in> set (priv_official_total_bulletins r). deaths b = deaths (priv_auto_calculated_total r))"
    unfolding check_total_death_cases_def list_all_iff by (simp add: eq_commute)
  have c: "priv_official_total_bulletins r \<noteq> [] \<Longrightarrow>
      check_total_confirmed_cases r \<longleftrightarrow>
         (\<forall>b \<in> set (priv_official_total_bulletins r).
            confirmed_cases b = confirmed_cases (priv_auto_calculated_total r))"
    unfolding check_total_confirmed_cases_def list_all_iff by (simp add: eq_commute)
  have e: "priv_official_total_bulletins r = [] \<Longrightarrow>
      \<not> check_total_death_cases r \<and> \<not> check_total_confirmed_cases r"
    by (simp add: check_total_death_cases_def check_total_confirmed_cases_def)
  show ?thesis using d c e by fastforce
qed

theorem check_totals_all_agree_witness:
  "\<not> check_total_death_cases example_report
   \<and> \<not> check_total_confirmed_cases example_report
   \<and> check_total_death_cases
       (example_report\<lparr>priv_official_total_bulletins :=
          [example_bulletin ''gov'' (Some 10) (Some 1), example_bulletin ''ms'' (Some 12) (Some 1)],
          priv_auto_calculated_total := example_bulletin ''sum'' (Some 10) (Some 1)\<rparr>)
   \<and> \<not> check_total_confirmed_cases
       (example_report\<lparr>priv_official_total_bulletins :=
          [example_bulletin ''gov'' (Some 10) (Some 1), example_bulletin ''ms'' (Some 12) (Some 1)],
          priv_auto_calculated_total := example_bulletin ''sum'' (Some 10) (Some 1)\<rparr>)"
  using check_totals_all_agree [of example_report]
        check_totals_all_agree
          [of "example_report\<lparr>priv_official_total_bulletins :=
                 [example_bulletin ''gov'' (Some 10) (Some 1),
                  example_bulletin ''ms'' (Some 12) (Some 1)],
               priv_auto_calculated_total := example_bulletin ''sum'' (Some 10) (Some 1)\<rparr>"]
  by (simp add: example_report_def example_bulletin_def)

section \<open>Construction\<close>

text \<open>
  C9: constructing a report with no quality fails with \<^verbatim>\<open>BadReportError\<close> and yields
  no report; constructing it with at least one quality succeeds and yields a report with
  no county bulletin, no official total, no warning, an empty automatic total tagged
  as the automatic sum and an empty imported/undefined bulletin tagged as not found.
\<close>

theorem init_contract:
  "init d p s [] = Inl (BadReportError ''A report can't have no qualities.'')
   \<and> (qs \<noteq> [] \<longrightarrow>
       (\<exists>r. init d p s qs = Inr r
          \<and> priv_county_bulletins r = []
          \<and> priv_official_total_bulletins r = []
          \<and> priv_warnings r = {}
          \<and> priv_auto_calculated_total r = new_bulletin d s soma_automatica
          \<and> is_empty (priv_auto_calculated_total r)
          \<and> undefined_or_imported_cases_bulletin r = Some (new_bulletin d s nao_encontrada)
          \<and> is_empty (new_bulletin d s nao_encontrada)
          \<and> priv_expected_qualities r = qs
          \<and> reference_date r = d \<and> published_at r = p \<and> report_state r = s))"
  by (simp add: init_def new_bulletin_def is_empty_def has_confirmed_cases_def has_deaths_def)

theorem init_contract_witness:
  "[COUNTY_BULLETINS] \<noteq> []
   \<and> init (2021, 3, 14) (2021, 3, 15) ''SP'' [COUNTY_BULLETINS] = Inr example_report
   \<and> is_empty (priv_auto_calculated_total example_report)
   \<and> (\<exists>e. init (2021, 3, 14) (2021, 3, 15) ''SP'' [] = Inl e)"
proof -
  have q: "[COUNTY_BULLETINS] \<noteq> []" by simp
  from init_contract [of "(2021, 3, 14)" "(2021, 3, 15)" "''SP''" "[COUNTY_BULLETINS]"] q
  obtain r where r: "init (2021, 3, 14) (2021, 3, 15) ''SP'' [COUNTY_BULLETINS] = Inr r"
    and e: "is_empty (priv_auto_calculated_total r)"
    and f: "init (2021, 3, 14) (2021, 3, 15) ''SP'' [] =
              Inl (BadReportError ''A report can't have no qualities.'')"
    by blast
  have "r = example_report" using r by (simp add: init_def example_report_def)
  with r e f q show ?thesis by simp
qed

section \<open>Ingesting an imported/undefined bulletin\<close>

text \<open>
  C2: given an imported/undefined bulletin, \<^verbatim>\<open>add_new_bulletin\<close> stores it in place
  of the one the report held, whatever that was, and changes nothing else but the
  automatic total, to which it adds the incoming confirmed cases and deaths, each only
  when the incoming bulletin records it. Nothing of the bulletin that was replaced is
  subtracted: the counters of the new total are those of the old total plus the incoming
  ones.
\<close>

theorem imported_bulletin_replaces_without_subtracting:
  "add_new_bulletin hash_of eq val (ImportedUndefinedBulletin b) r =
     r\<lparr>undefined_or_imported_cases_bulletin := Some b,
       priv_auto_calculated_total :=
         (priv_auto_calculated_total r)
           \<lparr>confirmed_cases :=
              (case confirmed_cases b of
                 None \<Rightarrow> confirmed_cases (priv_auto_calculated_total r)
               | Some v \<Rightarrow> Some (counted (confirmed_cases (priv_auto_calculated_total r)) + v)),
            deaths :=
              (case deaths b of
                 None \<Rightarrow> deaths (priv_auto_calculated_total r)
               | Some v \<Rightarrow> Some (counted (deaths (priv_auto_calculated_total r)) + v))\<rparr>\<rparr>
   \<and> counted (confirmed_cases (priv_auto_calculated_total
         (add_new_bulletin hash_of eq val (ImportedUndefinedBulletin b) r)))
       = counted (confirmed_cases (priv_auto_calculated_total r)) + counted (confirmed_cases b)
   \<and> counted (deaths (priv_auto_calculated_total
         (add_new_bulletin hash_of eq val (ImportedUndefinedBulletin b) r)))
       = counted (deaths (priv_auto_calculated_total r)) + counted (deaths b)"
  by (cases "confirmed_cases b"; cases "deaths b")
     (simp_all add: add_to_auto_calculated_total_def has_confirmed_cases_def has_deaths_def
        increase_confirmed_cases_def increase_deaths_def counted_def)

theorem imported_bulletin_replaces_without_subtracting_witness:
  "undefined_or_imported_cases_bulletin
       (add_new_bulletin example_hash (=) example_val
          (ImportedUndefinedBulletin (example_bulletin ''b'' (Some 3) None))
          (example_report\<lparr>undefined_or_imported_cases_bulletin :=
               Some (example_bulletin ''a'' (Some 2) (Some 1)),
             priv_auto_calculated_total := example_bulletin ''sum'' (Some 2) (Some 1)\<rparr>))
     = Some (example_bulletin ''b'' (Some 3) None)
   \<and> confirmed_cases (priv_auto_calculated_total
       (add_new_bulletin example_hash (=) example_val
          (ImportedUndefinedBulletin (example_bulletin ''b'' (Some 3) None))
          (example_report\<lparr>undefined_or_imported_cases_bulletin :=
               Some (example_bulletin ''a'' (Some 2) (Some 1)),
             priv_auto_calculated_total := example_bulletin ''sum'' (Some 2) (Some 1)\<rparr>)))
     = Some 5
   \<and> deaths (priv_auto_calculated_total
       (add_new_bulletin example_hash (=) example_val
          (ImportedUndefinedBulletin (example_bulletin ''b'' (Some 3) None))
          (example_report\<lparr>undefined_or_imported_cases_bulletin :=
               Some (example_bulletin ''a'' (Some 2) (Some 1)),
             priv_auto_calculated_total := example_bulletin ''sum'' (Some 2) (Some 1)\<rparr>)))
     = Some 1"
  using imported_bulletin_replaces_without_subtracting
          [of example_hash "(=)" example_val "example_bulletin ''b'' (Some 3) None"
              "example_report\<lparr>undefined_or_imported_cases_bulletin :=
                   Some (example_bulletin ''a'' (Some 2) (Some 1)),
                 priv_auto_calculated_total := example_bulletin ''sum'' (Some 2) (Some 1)\<rparr>"]
  by (simp add: example_bulletin_def example_report_def counted_def)

section \<open>Merging two bulletins of one county\<close>

lemma merge_data_fields:
  "merge_data e n =
     e\<lparr>confirmed_cases := (case confirmed_cases e of None \<Rightarrow> confirmed_cases n | Some x \<Rightarrow> Some x),
       deaths := (case deaths e of None \<Rightarrow> deaths n | Some x \<Rightarrow> Some x)\<rparr>"
  by (cases "confirmed_cases e"; cases "deaths e")
     (simp_all add: merge_data_def has_confirmed_cases_def has_deaths_def)

lemma both_differ_iff:
  "(a \<noteq> None \<and> b \<noteq> None) \<and> a \<noteq> b \<longleftrightarrow> (\<exists>x y. a = Some x \<and> b = Some y \<and> x \<noteq> y)"
  by (cases a; cases b) auto

text \<open>
  C4: for an existing and an incoming county bulletin,
  \<^verbatim>\<open>_compare_county_bulletins_and_return_the_completest\<close> returns the existing one and
  leaves the report as it is when the two are equal. Otherwise it calls
  \<^verbatim>\<open>add_warning\<close> with \<^verbatim>\<open>SOURCES_DONT_MATCH\<close> and the two source sets exactly when
  both record deaths and the numbers differ or both record confirmed cases and the
  numbers differ, and changes the report in no other way; whether or not it warned, it
  returns the existing bulletin if that is complete, else the incoming one if that is
  complete, else the existing one with each counter it lacks taken from the incoming one.
  After such a call a warning of that kind is in the report.
\<close>

theorem merge_or_choose_steps:
  "(eq e n \<longrightarrow> compare_county_bulletins_and_return_the_completest eq val e n r = (e, r))
   \<and> (\<not> eq e n \<longrightarrow>
        fst (compare_county_bulletins_and_return_the_completest eq val e n r)
          = (if is_complete e then e else if is_complete n then n else merge_data e n)
        \<and> snd (compare_county_bulletins_and_return_the_completest eq val e n r)
          = (if (\<exists>x y. deaths e = Some x \<and> deaths n = Some y \<and> x \<noteq> y)
                \<or> (\<exists>x y. confirmed_cases e = Some x \<and> confirmed_cases n = Some y \<and> x \<noteq> y)
             then add_warning val SOURCES_DONT_MATCH
                    (Some (SourcesText (sources e) (sources n))) r
             else r))
   \<and> merge_data e n =
       e\<lparr>confirmed_cases := (case confirmed_cases e of None \<Rightarrow> confirmed_cases n | Some x \<Rightarrow> Some x),
         deaths := (case deaths e of None \<Rightarrow> deaths n | Some x \<Rightarrow> Some x)\<rparr>
   \<and> val SOURCES_DONT_MATCH \<in> slug ` priv_warnings (add_warning val SOURCES_DONT_MATCH d r)"
proof -
  have a: "eq e n \<Longrightarrow> compare_county_bulletins_and_return_the_completest eq val e n r = (e, r)"
    by (simp add: compare_county_bulletins_and_return_the_completest_def)
  have b: "\<not> eq e n \<Longrightarrow>
        fst (compare_county_bulletins_and_return_the_completest eq val e n r)
          = (if is_complete e then e else if is_complete n then n else merge_data e n)"
    by (simp add: compare_county_bulletins_and_return_the_completest_def Let_def)
  have c: "\<not> eq e n \<Longrightarrow> snd (compare_county_bulletins_and_return_the_completest eq val e n r)
          = (if (\<exists>x y. deaths e = Some x \<and> deaths n = Some y \<and> x \<noteq> y)
                \<or> (\<exists>x y. confirmed_cases e = Some x \<and> confirmed_cases n = Some y \<and> x \<noteq> y)
             then add_warning val SOURCES_DONT_MATCH
                    (Some (SourcesText (sources e) (sources n))) r
             else r)"
  proof -
    assume ne: "\<not> eq e n"
    let ?m = "((has_deaths e \<and> has_deaths n) \<and> deaths e \<noteq> deaths n)
              \<or> ((has_confirmed_cases e \<and> has_confirmed_cases n)
                  \<and> confirmed_cases e \<noteq> confirmed_cases n)"
    let ?w = "add_warning val SOURCES_DONT_MATCH (Some (SourcesText (sources e) (sources n))) r"
    have m: "?m \<longleftrightarrow> (\<exists>x y. deaths e = Some x \<and> deaths n = Some y \<and> x \<noteq> y)
                \<or> (\<exists>x y. confirmed_cases e = Some x \<and> confirmed_cases n = Some y \<and> x \<noteq> y)"
      unfolding has_deaths_def has_confirmed_cases_def both_differ_iff ..
    have "snd (compare_county_bulletins_and_return_the_completest eq val e n r)
            = (if ?m then ?w else r)"
      using ne by (simp add: compare_county_bulletins_and_return_the_completest_def Let_def)
    then show ?thesis by (simp only: m)
  qed
  have d: "val SOURCES_DONT_MATCH \<in> slug ` priv_warnings (add_warning val SOURCES_DONT_MATCH d r)"
    by (simp add: add_warning_def warning_set_add_def)
  show ?thesis using a b c d merge_data_fields by blast
qed

theorem merge_or_choose_steps_witness:
  "fst (compare_county_bulletins_and_return_the_completest (=) example_val
          (example_county ''Campinas'' ''s1'' (Some 10) None)
          (example_county ''Campinas'' ''s2'' (Some 12) (Some 1)) example_report)
     = example_county ''Campinas'' ''s2'' (Some 12) (Some 1)
   \<and> priv_warnings (snd (compare_county_bulletins_and_return_the_completest (=) example_val
          (example_county ''Campinas'' ''s1'' (Some 10) None)
          (example_county ''Campinas'' ''s2'' (Some 12) (Some 1)) example_report))
     = {\<lparr>slug = ''sources-dont-match'', description = Some (SourcesText {''s1''} {''s2''})\<rparr>}
   \<and> compare_county_bulletins_and_return_the_completest (=) example_val
          (example_county ''Campinas'' ''s1'' (Some 10) None)
          (example_county ''Campinas'' ''s1'' (Some 10) None) example_report
     = (example_county ''Campinas'' ''s1'' (Some 10) None, example_report)
   \<and> fst (compare_county_bulletins_and_return_the_completest (=) example_val
          (example_county ''Campinas'' ''s1'' (Some 10) None)
          (example_county ''Campinas'' ''s2'' None (Some 1)) example_report)
     = \<lparr>date = (2021, 3, 14), state = ''SP'', sources = {''s1''},
        confirmed_cases = Some 10, deaths = Some 1, city = ''Campinas''\<rparr>
   \<and> snd (compare_county_bulletins_and_return_the_completest (=) example_val
          (example_county ''Campinas'' ''s1'' (Some 10) None)
          (example_county ''Campinas'' ''s2'' None (Some 1)) example_report)
     = example_report"
  using merge_or_choose_steps
          [of "(=)" "example_county ''Campinas'' ''s1'' (Some 10) None"
              "example_county ''Campinas'' ''s2'' (Some 12) (Some 1)" example_val example_report]
        merge_or_choose_steps
          [of "(=)" "example_county ''Campinas'' ''s1'' (Some 10) None"
              "example_county ''Campinas'' ''s1'' (Some 10) None" example_val example_report]
        merge_or_choose_steps
          [of "(=)" "example_county ''Campinas'' ''s1'' (Some 10) None"
              "example_county ''Campinas'' ''s2'' None (Some 1)" example_val example_report]
  by (simp add: example_county_def example_report_def example_val_def is_complete_def
        has_confirmed_cases_def has_deaths_def add_warning_def warning_set_add_def)

section \<open>The warnings slug\<close>

lemma add_warning_as_add_warnings:
  "add_warning val k d r = add_warnings [\<lparr>slug = val k, description = d\<rparr>] r"
  by (simp add: add_warning_def add_warnings_def)

lemma add_warnings_append: "add_warnings bs (add_warnings as r) = add_warnings (as @ bs) r"
  by (simp add: add_warnings_def)

lemma add_warnings_Nil: "add_warnings [] r = r"
  by (simp add: add_warnings_def)

lemma add_warnings_fields [simp]:
  "priv_expected_qualities (add_warnings ws r) = priv_expected_qualities r"
  "priv_county_bulletins (add_warnings ws r) = priv_county_bulletins r"
  "priv_official_total_bulletins (add_warnings ws r) = priv_official_total_bulletins r"
  "priv_auto_calculated_total (add_warnings ws r) = priv_auto_calculated_total r"
  "undefined_or_imported_cases_bulletin (add_warnings ws r) = undefined_or_imported_cases_bulletin r"
  "priv_warnings (add_warnings ws r) = fold warning_set_add ws (priv_warnings r)"
  by (simp_all add: add_warnings_def)

lemma add_warnings_observers [simp]:
  "has_undefined_or_imported_cases (add_warnings ws r) = has_undefined_or_imported_cases r"
  "total_bulletin (add_warnings ws r) = total_bulletin r"
  "check_total_confirmed_cases (add_warnings ws r) = check_total_confirmed_cases r"
  "check_total_death_cases (add_warnings ws r) = check_total_death_cases r"
  by (simp_all add: has_undefined_or_imported_cases_def total_bulletin_def
        check_total_confirmed_cases_def check_total_death_cases_def split: list.split)

lemma if_add_warnings: "(if c then add_warnings ws r else r) = add_warnings (if c then ws else []) r"
  by (simp add: add_warnings_Nil)

lemma if_else_add_warnings:
  "(if c then add_warnings ws r else if c' then add_warnings ws' r else r)
     = add_warnings (if c then ws else if c' then ws' else []) r"
  by (simp add: add_warnings_Nil)

lemma auto_detect_warnings_detected:
  "auto_detect_warnings val r = add_warnings (detected val r) r"
  unfolding auto_detect_warnings_def Let_def add_warning_as_add_warnings
    if_else_add_warnings if_add_warnings add_warnings_fields add_warnings_observers
    add_warnings_append detected_def append_assoc
  by (cases "priv_official_total_bulletins r = []") (simp_all only: if_True if_False simp_thms)

lemma detected_add_warnings [simp]: "detected val (add_warnings ws r) = detected val r"
  by (simp add: detected_def)

lemma fold_warning_set_add_slugs:
  "slug ` fold warning_set_add ws W = slug ` W \<union> slug ` set ws"
  by (induction ws arbitrary: W) (auto simp: warning_set_add_def)

lemma fold_warning_set_add_noop:
  "slug ` set ws \<subseteq> slug ` W \<Longrightarrow> fold warning_set_add ws W = W"
  by (induction ws arbitrary: W) (auto simp: warning_set_add_def)

lemma add_warnings_twice: "add_warnings ws (add_warnings ws r) = add_warnings ws r"
  by (simp add: add_warnings_def fold_warning_set_add_noop fold_warning_set_add_slugs)

lemma auto_detect_warnings_idem:
  "auto_detect_warnings val (auto_detect_warnings val r) = auto_detect_warnings val r"
  by (simp add: auto_detect_warnings_detected add_warnings_twice)

lemma fold_warning_set_add_finite: "finite W \<Longrightarrow> finite (fold warning_set_add ws W)"
  by (induction ws arbitrary: W) (auto simp: warning_set_add_def)

text \<open>
  C7: \<^verbatim>\<open>warnings_slug\<close> detects the warnings first; on the report this leaves it
  returns the empty string when there is no warning, and otherwise two underscores
  followed by the slugs of the warnings, without duplicates and in ascending order,
  joined by two underscores. A second call on the report the first call left returns
  the same string and leaves the same report.
\<close>

theorem warnings_slug_contract:
  "warnings_slug val r =
     (if priv_warnings (auto_detect_warnings val r) = {} then []
      else ''__'' @ join ''__''
             (sorted_list_of_set (slug ` priv_warnings (auto_detect_warnings val r))),
      auto_detect_warnings val r)
   \<and> warnings_slug val (snd (warnings_slug val r)) = warnings_slug val r
   \<and> (finite (priv_warnings r) \<longrightarrow>
        sorted (sorted_list_of_set (slug ` priv_warnings (auto_detect_warnings val r)))
        \<and> distinct (sorted_list_of_set (slug ` priv_warnings (auto_detect_warnings val r)))
        \<and> set (sorted_list_of_set (slug ` priv_warnings (auto_detect_warnings val r)))
            = slug ` priv_warnings (auto_detect_warnings val r))"
proof -
  have a: "warnings_slug val r =
     (if priv_warnings (auto_detect_warnings val r) = {} then []
      else ''__'' @ join ''__''
             (sorted_list_of_set (slug ` priv_warnings (auto_detect_warnings val r))),
      auto_detect_warnings val r)" for r
    by (simp add: warnings_slug_def Let_def)
  have b: "warnings_slug val (snd (warnings_slug val r)) = warnings_slug val r"
    by (simp add: a auto_detect_warnings_idem)
  have c: "finite (priv_warnings r) \<Longrightarrow> finite (slug ` priv_warnings (auto_detect_warnings val r))"
    by (simp add: auto_detect_warnings_detected fold_warning_set_add_finite)
  show ?thesis using a b c by simp
qed

theorem warnings_slug_contract_witness:
  "finite (priv_warnings example_report)
   \<and> fst (warnings_slug example_val example_report)
       = ''__missing-confirmed-cases__missing-county-bulletins__missing-deaths__no-official-total''
   \<and> fst (warnings_slug example_val (snd (warnings_slug example_val example_report)))
       = ''__missing-confirmed-cases__missing-county-bulletins__missing-deaths__no-official-total''
   \<and> fst (warnings_slug example_val
        (example_report\<lparr>priv_official_total_bulletins := [example_bulletin ''gov'' (Some 12) (Some 1)],
           priv_expected_qualities := [ONLY_TOTAL]\<rparr>)) = ''__only-total''
   \<and> fst (warnings_slug example_val
        (example_report\<lparr>priv_official_total_bulletins := [example_bulletin ''gov'' (Some 12) (Some 1)],
           priv_expected_qualities := [UNDEFINED_OR_IMPORTED_CASES],
           undefined_or_imported_cases_bulletin := Some (example_bulletin ''gov'' (Some 2) None)\<rparr>)) = []"
proof -
  have f: "finite (priv_warnings example_report)" by (simp add: example_report_def)
  have a: "auto_detect_warnings example_val example_report =
             example_report\<lparr>priv_warnings :=
               {\<lparr>slug = ''no-official-total'', description = Some (FixedText NO_OFFICIAL_TOTAL)\<rparr>,
                \<lparr>slug = ''missing-deaths'', description = Some (FixedText MISSING_DEATHS)\<rparr>,
                \<lparr>slug = ''missing-confirmed-cases'',
                  description = Some (FixedText MISSING_CONFIRMED_CASES)\<rparr>,
                \<lparr>slug = ''missing-county-bulletins'',
                  description = Some (FixedText MISSING_COUNTY_BULLETINS)\<rparr>}\<rparr>"
    by (simp add: example_report_def auto_detect_warnings_def add_warning_def warning_set_add_def
          example_val_def total_bulletin_def new_bulletin_def has_confirmed_cases_def
          has_deaths_def Let_def has_undefined_or_imported_cases_def)
  have b: "auto_detect_warnings example_val
        (example_report\<lparr>priv_official_total_bulletins := [example_bulletin ''gov'' (Some 12) (Some 1)],
           priv_expected_qualities := [ONLY_TOTAL]\<rparr>) =
        example_report\<lparr>priv_official_total_bulletins := [example_bulletin ''gov'' (Some 12) (Some 1)],
           priv_expected_qualities := [ONLY_TOTAL],
           priv_warnings := {\<lparr>slug = ''only-total'', description = Some (FixedText ONLY_TOTAL_WARNING)\<rparr>}\<rparr>"
    by (simp add: example_report_def auto_detect_warnings_def add_warning_def warning_set_add_def
          example_val_def total_bulletin_def new_bulletin_def has_confirmed_cases_def
          has_deaths_def Let_def has_undefined_or_imported_cases_def example_bulletin_def is_empty_def)
  have c: "auto_detect_warnings example_val
        (example_report\<lparr>priv_official_total_bulletins := [example_bulletin ''gov'' (Some 12) (Some 1)],
           priv_expected_qualities := [UNDEFINED_OR_IMPORTED_CASES],
           undefined_or_imported_cases_bulletin := Some (example_bulletin ''gov'' (Some 2) None)\<rparr>) =
        example_report\<lparr>priv_official_total_bulletins := [example_bulletin ''gov'' (Some 12) (Some 1)],
           priv_expected_qualities := [UNDEFINED_OR_IMPORTED_CASES],
           undefined_or_imported_cases_bulletin := Some (example_bulletin ''gov'' (Some 2) None)\<rparr>"
    by (simp add: example_report_def auto_detect_warnings_def add_warning_def warning_set_add_def
          example_val_def total_bulletin_def new_bulletin_def has_confirmed_cases_def
          has_deaths_def Let_def has_undefined_or_imported_cases_def example_bulletin_def is_empty_def)
  let ?only = "example_report\<lparr>priv_official_total_bulletins := [example_bulletin ''gov'' (Some 12) (Some 1)],
           priv_expected_qualities := [ONLY_TOTAL]\<rparr>"
  let ?none = "example_report\<lparr>priv_official_total_bulletins := [example_bulletin ''gov'' (Some 12) (Some 1)],
           priv_expected_qualities := [UNDEFINED_OR_IMPORTED_CASES],
           undefined_or_imported_cases_bulletin := Some (example_bulletin ''gov'' (Some 2) None)\<rparr>"
  note t1 = warnings_slug_contract [of example_val example_report]
  note t2 = warnings_slug_contract [of example_val ?only]
  note t3 = warnings_slug_contract [of example_val ?none]
  have s1: "fst (warnings_slug example_val example_report)
       = ''__missing-confirmed-cases__missing-county-bulletins__missing-deaths__no-official-total''"
    using t1 by (simp add: a)
  have s2: "fst (warnings_slug example_val (snd (warnings_slug example_val example_report)))
       = fst (warnings_slug example_val example_report)"
    using conjunct1 [OF conjunct2 [OF t1]] by (rule arg_cong)
  have s3: "fst (warnings_slug example_val ?only) = ''__only-total''"
    using t2 by (simp add: b)
  have s4: "fst (warnings_slug example_val ?none) = []"
    using t3 by (simp add: c) (simp add: example_report_def)
  show ?thesis using f s1 s2 s3 s4 by simp
qed

section \<open>The rows of the CSV file\<close>

lemma csv_loop_map_filter:
  "csv_loop f bs rows = rows @ map (\<lambda>b. f (CountyBulletin b)) (filter (\<lambda>b. \<not> is_empty b) bs)"
  by (induction bs arbitrary: rows) simp_all

text \<open>
  C8: for every report that holds an imported/undefined bulletin, as every report does
  that the constructor built and \<^verbatim>\<open>add_new_bulletin\<close> changed, \<^verbatim>\<open>to_csv_rows\<close>
  returns the rows of the county bulletins that are not empty in ascending order of
  their city, then the row of the imported/undefined bulletin, empty or not, then the
  row of \<^verbatim>\<open>total_bulletin\<close>. The county rows are those of exactly the stored
  bulletins that are not empty, each once.
\<close>

theorem to_csv_rows_order:
  assumes "undefined_or_imported_cases_bulletin r = Some u"
  shows "to_csv_rows to_csv_row r =
           Inr (map (\<lambda>b. to_csv_row (CountyBulletin b))
                  (filter (\<lambda>b. \<not> is_empty b) (sort_key city (county_bulletins r)))
                @ [to_csv_row (ImportedUndefinedBulletin u),
                   to_csv_row (StateTotalBulletin (total_bulletin r))])
         \<and> sorted (map city (filter (\<lambda>b. \<not> is_empty b) (sort_key city (county_bulletins r))))
         \<and> mset (filter (\<lambda>b. \<not> is_empty b) (sort_key city (county_bulletins r)))
             = filter_mset (\<lambda>b. \<not> is_empty b) (mset (county_bulletins r))"
  using assms by (simp add: to_csv_rows_def csv_loop_map_filter sorted_filter)

theorem to_csv_rows_order_witness:
  "undefined_or_imported_cases_bulletin
      (example_report\<lparr>priv_county_bulletins :=
         [(10, example_county ''Santos'' ''s1'' (Some 7) None),
          (11, example_county ''Barueri'' ''s1'' None None),
          (12, example_county ''Campinas'' ''s1'' (Some 3) (Some 1))]\<rparr>)
     = Some (new_bulletin (2021, 3, 14) ''SP'' nao_encontrada)
   \<and> to_csv_rows id
      (example_report\<lparr>priv_county_bulletins :=
         [(10, example_county ''Santos'' ''s1'' (Some 7) None),
          (11, example_county ''Barueri'' ''s1'' None None),
          (12, example_county ''Campinas'' ''s1'' (Some 3) (Some 1))]\<rparr>)
     = Inr [CountyBulletin (example_county ''Campinas'' ''s1'' (Some 3) (Some 1)),
            CountyBulletin (example_county ''Santos'' ''s1'' (Some 7) None),
            ImportedUndefinedBulletin (new_bulletin (2021, 3, 14) ''SP'' nao_encontrada),
            StateTotalBulletin (new_bulletin (2021, 3, 14) ''SP'' soma_automatica)]"
proof -
  let ?r = "example_report\<lparr>priv_county_bulletins :=
         [(10, example_county ''Santos'' ''s1'' (Some 7) None),
          (11, example_county ''Barueri'' ''s1'' None None),
          (12, example_county ''Campinas'' ''s1'' (Some 3) (Some 1))]\<rparr>"
  have u: "undefined_or_imported_cases_bulletin ?r
             = Some (new_bulletin (2021, 3, 14) ''SP'' nao_encontrada)"
    by (simp add: example_report_def)
  show ?thesis
    using to_csv_rows_order [OF u, of id] u
    by (simp add: example_report_def example_county_def county_bulletins_def is_empty_def
          has_confirmed_cases_def has_deaths_def total_bulletin_def)
qed

section \<open>Ingesting a county bulletin\<close>

lemma add_to_auto_calculated_total_fields [simp]:
  "priv_county_bulletins (add_to_auto_calculated_total b r) = priv_county_bulletins r"
  "undefined_or_imported_cases_bulletin (add_to_auto_calculated_total b r)
     = undefined_or_imported_cases_bulletin r"
  "priv_official_total_bulletins (add_to_auto_calculated_total b r) = priv_official_total_bulletins r"
  "priv_warnings (add_to_auto_calculated_total b r) = priv_warnings r"
  "priv_expected_qualities (add_to_auto_calculated_total b r) = priv_expected_qualities r"
  by (simp_all add: add_to_auto_calculated_total_def Let_def)

lemma add_to_auto_calculated_total_counted:
  "counted (confirmed_cases (priv_auto_calculated_total (add_to_auto_calculated_total b r)))
     = counted (confirmed_cases (priv_auto_calculated_total r)) + counted (confirmed_cases b)"
  "counted (deaths (priv_auto_calculated_total (add_to_auto_calculated_total b r)))
     = counted (deaths (priv_auto_calculated_total r)) + counted (deaths b)"
  by (cases "confirmed_cases b"; cases "deaths b";
      simp add: add_to_auto_calculated_total_def has_confirmed_cases_def has_deaths_def
        increase_confirmed_cases_def increase_deaths_def counted_def)+

lemma pop_county_bulletin_fst:
  "fst (pop_county_bulletin k r) = map_of (priv_county_bulletins r) k"
  by (simp add: pop_county_bulletin_def Let_def split: option.split)

lemma pop_county_bulletin_fields [simp]:
  "priv_county_bulletins (snd (pop_county_bulletin k r)) = AList.delete k (priv_county_bulletins r)"
  "undefined_or_imported_cases_bulletin (snd (pop_county_bulletin k r))
     = undefined_or_imported_cases_bulletin r"
  "priv_official_total_bulletins (snd (pop_county_bulletin k r)) = priv_official_total_bulletins r"
  "priv_warnings (snd (pop_county_bulletin k r)) = priv_warnings r"
  "priv_expected_qualities (snd (pop_county_bulletin k r)) = priv_expected_qualities r"
  by (simp_all add: pop_county_bulletin_def Let_def split: option.split)

lemma pop_county_bulletin_None:
  "map_of (priv_county_bulletins r) k = None \<Longrightarrow>
   priv_auto_calculated_total (snd (pop_county_bulletin k r)) = priv_auto_calculated_total r"
  by (simp add: pop_county_bulletin_def)

lemma pop_county_bulletin_counted:
  "map_of (priv_county_bulletins r) k = Some e \<Longrightarrow>
   counted (confirmed_cases (priv_auto_calculated_total (snd (pop_county_bulletin k r))))
     = counted (confirmed_cases (priv_auto_calculated_total r)) - counted (confirmed_cases e)"
  "map_of (priv_county_bulletins r) k = Some e \<Longrightarrow>
   counted (deaths (priv_auto_calculated_total (snd (pop_county_bulletin k r))))
     = counted (deaths (priv_auto_calculated_total r)) - counted (deaths e)"
  by (cases "confirmed_cases e"; cases "deaths e";
      simp add: pop_county_bulletin_def has_confirmed_cases_def has_deaths_def
        decrease_confirmed_cases_def decrease_deaths_def counted_def)+

lemma compare_fst_any_report:
  "fst (compare_county_bulletins_and_return_the_completest eq val e n r)
     = fst (compare_county_bulletins_and_return_the_completest eq val e n r')"
  by (simp add: compare_county_bulletins_and_return_the_completest_def Let_def)

lemma compare_fields [simp]:
  "priv_county_bulletins (snd (compare_county_bulletins_and_return_the_completest eq val e n r))
     = priv_county_bulletins r"
  "priv_auto_calculated_total (snd (compare_county_bulletins_and_return_the_completest eq val e n r))
     = priv_auto_calculated_total r"
  "undefined_or_imported_cases_bulletin
     (snd (compare_county_bulletins_and_return_the_completest eq val e n r))
     = undefined_or_imported_cases_bulletin r"
  "priv_official_total_bulletins (snd (compare_county_bulletins_and_return_the_completest eq val e n r))
     = priv_official_total_bulletins r"
  "priv_expected_qualities (snd (compare_county_bulletins_and_return_the_completest eq val e n r))
     = priv_expected_qualities r"
  by (simp_all add: compare_county_bulletins_and_return_the_completest_def Let_def add_warning_def)

text \<open>The county branch of \<^verbatim>\<open>add_new_bulletin\<close>, one step after the other.\<close>

lemma add_new_county_bulletin_unfold:
  "add_new_bulletin hash_of eq val (CountyBulletin b) r =
     (let r1 = snd (pop_county_bulletin (hash_of b) r);
          c = (case map_of (priv_county_bulletins r) (hash_of b) of
                 Some e \<Rightarrow> compare_county_bulletins_and_return_the_completest eq val e b r1
               | None \<Rightarrow> (b, r1))
      in add_to_auto_calculated_total (fst c)
           ((snd c)\<lparr>priv_county_bulletins :=
               AList.update (hash_of b) (fst c) (priv_county_bulletins (snd c))\<rparr>))"
  by (simp add: Let_def split_beta pop_county_bulletin_fst)

lemma update_new_key: "k \<notin> fst ` set al \<Longrightarrow> AList.update k v al = al @ [(k, v)]"
  by (induction al) auto

lemma update_after_delete: "AList.update k v (AList.delete k al) = AList.delete k al @ [(k, v)]"
  by (rule update_new_key) (rule AList.delete_notin_dom)

lemma add_new_county_bulletin_existing:
  assumes "map_of (priv_county_bulletins r) (hash_of b) = Some e"
  shows "map_of (priv_county_bulletins (add_new_bulletin hash_of eq val (CountyBulletin b) r)) (hash_of b)
           = Some (fst (compare_county_bulletins_and_return_the_completest eq val e b r))"
    and "counted (confirmed_cases (priv_auto_calculated_total
            (add_new_bulletin hash_of eq val (CountyBulletin b) r)))
           = counted (confirmed_cases (priv_auto_calculated_total r)) - counted (confirmed_cases e)
             + counted (confirmed_cases (fst (compare_county_bulletins_and_return_the_completest eq val e b r)))"
    and "counted (deaths (priv_auto_calculated_total
            (add_new_bulletin hash_of eq val (CountyBulletin b) r)))
           = counted (deaths (priv_auto_calculated_total r)) - counted (deaths e)
             + counted (deaths (fst (compare_county_bulletins_and_return_the_completest eq val e b r)))"
    and "priv_county_bulletins (add_new_bulletin hash_of eq val (CountyBulletin b) r)
           = AList.delete (hash_of b) (priv_county_bulletins r)
             @ [(hash_of b, fst (compare_county_bulletins_and_return_the_completest eq val e b r))]"
proof -
  let ?r1 = "snd (pop_county_bulletin (hash_of b) r)"
  have f: "fst (compare_county_bulletins_and_return_the_completest eq val e b ?r1)
             = fst (compare_county_bulletins_and_return_the_completest eq val e b r)"
    by (rule compare_fst_any_report)
  show "map_of (priv_county_bulletins (add_new_bulletin hash_of eq val (CountyBulletin b) r)) (hash_of b)
           = Some (fst (compare_county_bulletins_and_return_the_completest eq val e b r))"
    using assms unfolding add_new_county_bulletin_unfold Let_def
    by (simp add: f AList.update_conv')
  show "counted (confirmed_cases (priv_auto_calculated_total
            (add_new_bulletin hash_of eq val (CountyBulletin b) r)))
           = counted (confirmed_cases (priv_auto_calculated_total r)) - counted (confirmed_cases e)
             + counted (confirmed_cases (fst (compare_county_bulletins_and_return_the_completest eq val e b r)))"
    using assms unfolding add_new_county_bulletin_unfold Let_def
    by (simp add: f add_to_auto_calculated_total_counted pop_county_bulletin_counted)
  show "counted (deaths (priv_auto_calculated_total
            (add_new_bulletin hash_of eq val (CountyBulletin b) r)))
           = counted (deaths (priv_auto_calculated_total r)) - counted (deaths e)
             + counted (deaths (fst (compare_county_bulletins_and_return_the_completest eq val e b r)))"
    using assms unfolding add_new_county_bulletin_unfold Let_def
    by (simp add: f add_to_auto_calculated_total_counted pop_county_bulletin_counted)
  show "priv_county_bulletins (add_new_bulletin hash_of eq val (CountyBulletin b) r)
           = AList.delete (hash_of b) (priv_county_bulletins r)
             @ [(hash_of b, fst (compare_county_bulletins_and_return_the_completest eq val e b r))]"
    using assms unfolding add_new_county_bulletin_unfold Let_def
    by (simp add: f update_after_delete)
qed

lemma add_new_county_bulletin_new:
  assumes "map_of (priv_county_bulletins r) (hash_of b) = None"
  shows "priv_county_bulletins (add_new_bulletin hash_of eq val (CountyBulletin b) r)
           = priv_county_bulletins r @ [(hash_of b, b)]"
    and "counted (confirmed_cases (priv_auto_calculated_total
            (add_new_bulletin hash_of eq val (CountyBulletin b) r)))
           = counted (confirmed_cases (priv_auto_calculated_total r)) + counted (confirmed_cases b)"
    and "counted (deaths (priv_auto_calculated_total
            (add_new_bulletin hash_of eq val (CountyBulletin b) r)))
           = counted (deaths (priv_auto_calculated_total r)) + counted (deaths b)"
    and "priv_warnings (add_new_bulletin hash_of eq val (CountyBulletin b) r) = priv_warnings r"
    and "is_empty b \<Longrightarrow> priv_auto_calculated_total (add_new_bulletin hash_of eq val (CountyBulletin b) r)
           = priv_auto_calculated_total r"
proof -
  from assms have k: "hash_of b \<notin> fst ` set (priv_county_bulletins r)"
    by (simp add: map_of_eq_None_iff)
  show "priv_county_bulletins (add_new_bulletin hash_of eq val (CountyBulletin b) r)
           = priv_county_bulletins r @ [(hash_of b, b)]"
    using assms k unfolding add_new_county_bulletin_unfold Let_def
    by (simp add: update_new_key)
  show "counted (confirmed_cases (priv_auto_calculated_total
            (add_new_bulletin hash_of eq val (CountyBulletin b) r)))
           = counted (confirmed_cases (priv_auto_calculated_total r)) + counted (confirmed_cases b)"
    using assms unfolding add_new_county_bulletin_unfold Let_def
    by (simp add: add_to_auto_calculated_total_counted pop_county_bulletin_None)
  show "counted (deaths (priv_auto_calculated_total
            (add_new_bulletin hash_of eq val (CountyBulletin b) r)))
           = counted (deaths (priv_auto_calculated_total r)) + counted (deaths b)"
    using assms unfolding add_new_county_bulletin_unfold Let_def
    by (simp add: add_to_auto_calculated_total_counted pop_county_bulletin_None)
  show "priv_warnings (add_new_bulletin hash_of eq val (CountyBulletin b) r) = priv_warnings r"
    using assms unfolding add_new_county_bulletin_unfold Let_def by simp
  show "priv_auto_calculated_total (add_new_bulletin hash_of eq val (CountyBulletin b) r)
           = priv_auto_calculated_total r" if "is_empty b"
    using assms that unfolding add_new_county_bulletin_unfold Let_def
    by (simp add: add_to_auto_calculated_total_def is_empty_def pop_county_bulletin_None)
qed

lemma sum_list_delete:
  fixes f :: "'v \<Rightarrow> int"
  shows "distinct (map fst al) \<Longrightarrow> map_of al k = Some e \<Longrightarrow>
         sum_list (map (f \<circ> snd) (AList.delete k al)) = sum_list (map (f \<circ> snd) al) - f e"
proof (induction al)
  case Nil
  then show ?case by simp
next
  case (Cons p al)
  show ?case
  proof (cases "fst p = k")
    case True
    with Cons.prems have "k \<notin> fst ` set al" "snd p = e" by auto
    then show ?thesis using True by (cases p) (simp add: AList.delete_id)
  next
    case False
    with Cons show ?thesis by (cases p) auto
  qed
qed

lemma county_step_accounting:
  assumes "distinct (map fst (priv_county_bulletins r))"
  shows "counted (confirmed_cases (priv_auto_calculated_total
            (add_new_bulletin hash_of eq val (CountyBulletin b) r)))
           - county_confirmed_cases (add_new_bulletin hash_of eq val (CountyBulletin b) r)
         = counted (confirmed_cases (priv_auto_calculated_total r)) - county_confirmed_cases r"
    and "counted (deaths (priv_auto_calculated_total
            (add_new_bulletin hash_of eq val (CountyBulletin b) r)))
           - county_deaths (add_new_bulletin hash_of eq val (CountyBulletin b) r)
         = counted (deaths (priv_auto_calculated_total r)) - county_deaths r"
    and "distinct (map fst (priv_county_bulletins (add_new_bulletin hash_of eq val (CountyBulletin b) r)))"
proof -
  let ?r' = "add_new_bulletin hash_of eq val (CountyBulletin b) r"
  have "(counted (confirmed_cases (priv_auto_calculated_total ?r')) - county_confirmed_cases ?r'
           = counted (confirmed_cases (priv_auto_calculated_total r)) - county_confirmed_cases r)
        \<and> (counted (deaths (priv_auto_calculated_total ?r')) - county_deaths ?r'
           = counted (deaths (priv_auto_calculated_total r)) - county_deaths r)
        \<and> distinct (map fst (priv_county_bulletins ?r'))"
  proof (cases "map_of (priv_county_bulletins r) (hash_of b)")
    case None
    then have "hash_of b \<notin> fst ` set (priv_county_bulletins r)"
      by (simp add: map_of_eq_None_iff)
    with assms show ?thesis
      by (simp del: add_new_bulletin.simps add: add_new_county_bulletin_new [where r=r and hash_of=hash_of and b=b, OF None] county_confirmed_cases_def
            county_deaths_def county_bulletins_def)
  next
    case (Some e)
    have "hash_of b \<notin> fst ` set (AList.delete (hash_of b) (priv_county_bulletins r))"
      by (rule AList.delete_notin_dom)
    with assms show ?thesis
      by (simp del: add_new_bulletin.simps add: add_new_county_bulletin_existing [where r=r and hash_of=hash_of and b=b, OF Some] county_confirmed_cases_def
            county_deaths_def county_bulletins_def sum_list_delete [OF assms Some]
            AList.distinct_delete)
  qed
  then show "counted (confirmed_cases (priv_auto_calculated_total ?r')) - county_confirmed_cases ?r'
           = counted (confirmed_cases (priv_auto_calculated_total r)) - county_confirmed_cases r"
    and "counted (deaths (priv_auto_calculated_total ?r')) - county_deaths ?r'
           = counted (deaths (priv_auto_calculated_total r)) - county_deaths r"
    and "distinct (map fst (priv_county_bulletins ?r'))"
    by simp_all
qed

lemma add_all_accounting:
  "distinct (map fst (priv_county_bulletins r)) \<Longrightarrow>
   counted (confirmed_cases (priv_auto_calculated_total (add_all hash_of eq val bs r)))
       - county_confirmed_cases (add_all hash_of eq val bs r)
     = counted (confirmed_cases (priv_auto_calculated_total r)) - county_confirmed_cases r
       + sum_list (map (\<lambda>i. counted (confirmed_cases i)) (imported bs))
   \<and> counted (deaths (priv_auto_calculated_total (add_all hash_of eq val bs r)))
       - county_deaths (add_all hash_of eq val bs r)
     = counted (deaths (priv_auto_calculated_total r)) - county_deaths r
       + sum_list (map (\<lambda>i. counted (deaths i)) (imported bs))
   \<and> distinct (map fst (priv_county_bulletins (add_all hash_of eq val bs r)))
   \<and> undefined_or_imported_cases_bulletin (add_all hash_of eq val bs r)
     = (if imported bs = [] then undefined_or_imported_cases_bulletin r
        else Some (last (imported bs)))"
proof (induction bs arbitrary: r)
  case Nil
  then show ?case by simp
next
  case (Cons b bs)
  show ?case
  proof (cases b)
    case (CountyBulletin c)
    note s = county_step_accounting [OF Cons.prems, of hash_of eq val c]
    have u: "undefined_or_imported_cases_bulletin (add_new_bulletin hash_of eq val (CountyBulletin c) r)
               = undefined_or_imported_cases_bulletin r"
      unfolding add_new_county_bulletin_unfold Let_def by (simp split: option.split)
    from Cons.IH [OF s(3)] s(1,2) u show ?thesis
      by (simp del: add_new_bulletin.simps add: CountyBulletin)
  next
    case (ImportedUndefinedBulletin i)
    let ?r' = "add_new_bulletin hash_of eq val (ImportedUndefinedBulletin i) r"
    have d: "distinct (map fst (priv_county_bulletins ?r'))"
      using Cons.prems by simp
    have c: "county_confirmed_cases ?r' = county_confirmed_cases r"
            "county_deaths ?r' = county_deaths r"
      by (simp_all add: county_confirmed_cases_def county_deaths_def county_bulletins_def)
    have t: "counted (confirmed_cases (priv_auto_calculated_total ?r'))
               = counted (confirmed_cases (priv_auto_calculated_total r)) + counted (confirmed_cases i)"
            "counted (deaths (priv_auto_calculated_total ?r'))
               = counted (deaths (priv_auto_calculated_total r)) + counted (deaths i)"
      by (simp_all add: add_to_auto_calculated_total_counted)
    have u: "undefined_or_imported_cases_bulletin ?r' = Some i" by simp
    from Cons.IH [OF d] c t u show ?thesis
      by (simp del: add_new_bulletin.simps add: ImportedUndefinedBulletin)
  next
    case (StateTotalBulletin t)
    let ?r' = "add_new_bulletin hash_of eq val (StateTotalBulletin t) r"
    have d: "distinct (map fst (priv_county_bulletins ?r'))"
      using Cons.prems by simp
    have c: "county_confirmed_cases ?r' = county_confirmed_cases r"
            "county_deaths ?r' = county_deaths r"
            "priv_auto_calculated_total ?r' = priv_auto_calculated_total r"
            "undefined_or_imported_cases_bulletin ?r' = undefined_or_imported_cases_bulletin r"
      by (simp_all add: county_confirmed_cases_def county_deaths_def county_bulletins_def)
    from Cons.IH [OF d] c show ?thesis
      by (simp del: add_new_bulletin.simps add: StateTotalBulletin)
  next
    case OtherBulletin
    with Cons show ?thesis by simp
  qed
qed

lemma init_fields:
  assumes "init d p s qs = Inr r0"
  shows "priv_county_bulletins r0 = []"
    and "priv_auto_calculated_total r0 = new_bulletin d s soma_automatica"
    and "undefined_or_imported_cases_bulletin r0 = Some (new_bulletin d s nao_encontrada)"
    and "priv_official_total_bulletins r0 = []"
    and "priv_warnings r0 = {}"
    and "priv_expected_qualities r0 = qs"
  using assms by (auto simp: init_def split: if_splits)

lemma new_bulletin_counters [simp]:
  "confirmed_cases (new_bulletin d s src) = None" "deaths (new_bulletin d s src) = None"
  by (simp_all add: new_bulletin_def)

lemma compare_result_cases:
  "fst (compare_county_bulletins_and_return_the_completest eq val e n r) \<in> {e, n, merge_data e n}"
  by (simp add: compare_county_bulletins_and_return_the_completest_def Let_def)

lemma example_report_init:
  "init (2021, 3, 14) (2021, 3, 15) ''SP'' [COUNTY_BULLETINS] = Inr example_report"
  by (simp add: init_def example_report_def)

lemma inj_example_val: "inj example_val"
  by (rule injI) (simp add: example_val_def split: WarningType.splits)

lemma compare_with_empty_counters:
  assumes "is_empty n"
  shows "confirmed_cases (fst (compare_county_bulletins_and_return_the_completest eq val e n r))
           = confirmed_cases e"
    and "deaths (fst (compare_county_bulletins_and_return_the_completest eq val e n r)) = deaths e"
  using assms
  by (auto simp: compare_county_bulletins_and_return_the_completest_def Let_def is_empty_def
        is_complete_def merge_data_fields has_confirmed_cases_def has_deaths_def
        split: option.splits)

lemma pop_county_bulletin_absent_counter:
  "confirmed_cases e = None \<Longrightarrow> map_of (priv_county_bulletins r) k = Some e \<Longrightarrow>
   confirmed_cases (priv_auto_calculated_total (snd (pop_county_bulletin k r)))
     = confirmed_cases (priv_auto_calculated_total r)"
  "deaths e = None \<Longrightarrow> map_of (priv_county_bulletins r) k = Some e \<Longrightarrow>
   deaths (priv_auto_calculated_total (snd (pop_county_bulletin k r)))
     = deaths (priv_auto_calculated_total r)"
  by (simp_all add: pop_county_bulletin_def has_confirmed_cases_def has_deaths_def
        decrease_confirmed_cases_def decrease_deaths_def Let_def)

lemma add_empty_county_bulletin_any_key:
  assumes "is_empty b"
  shows "map_of (priv_county_bulletins (add_new_bulletin hash_of eq val (CountyBulletin b) r)) (hash_of b)
           \<noteq> None"
    and "counted (confirmed_cases (priv_auto_calculated_total
            (add_new_bulletin hash_of eq val (CountyBulletin b) r)))
           = counted (confirmed_cases (priv_auto_calculated_total r))"
    and "counted (deaths (priv_auto_calculated_total
            (add_new_bulletin hash_of eq val (CountyBulletin b) r)))
           = counted (deaths (priv_auto_calculated_total r))"
proof -
  let ?r' = "add_new_bulletin hash_of eq val (CountyBulletin b) r"
  have "map_of (priv_county_bulletins ?r') (hash_of b) \<noteq> None
        \<and> counted (confirmed_cases (priv_auto_calculated_total ?r'))
            = counted (confirmed_cases (priv_auto_calculated_total r))
        \<and> counted (deaths (priv_auto_calculated_total ?r'))
            = counted (deaths (priv_auto_calculated_total r))"
  proof (cases "map_of (priv_county_bulletins r) (hash_of b)")
    case None
    note s = add_new_county_bulletin_new [where r=r and hash_of=hash_of and b=b, OF None]
    from assms have "counted (confirmed_cases b) = 0" "counted (deaths b) = 0"
      by (simp_all add: is_empty_def has_confirmed_cases_def has_deaths_def counted_def)
    with s(1,2,3) [of eq val] show ?thesis
      by (simp del: add_new_bulletin.simps)
  next
    case (Some e)
    note s = add_new_county_bulletin_existing [where r=r and hash_of=hash_of and b=b, OF Some]
    from s(1,2,3) [of eq val] compare_with_empty_counters [OF assms, of eq val e r]
    show ?thesis by (simp del: add_new_bulletin.simps)
  qed
  then show "map_of (priv_county_bulletins ?r') (hash_of b) \<noteq> None"
    and "counted (confirmed_cases (priv_auto_calculated_total ?r'))
            = counted (confirmed_cases (priv_auto_calculated_total r))"
    and "counted (deaths (priv_auto_calculated_total ?r'))
            = counted (deaths (priv_auto_calculated_total r))"
    by simp_all
qed

text \<open>
  C3: when the key of an incoming county bulletin is in the dictionary,
  \<^verbatim>\<open>_pop_county_bulletin\<close> returns the stored bulletin, removes the key and takes the
  stored counters out of the automatic total, a counter that is not recorded taking
  nothing; \<^verbatim>\<open>add_new_bulletin\<close> then stores the result of the comparison under the key
  and adds its counters, so the total changes by the result's counters minus the stored
  ones. Ingesting bulletin \<open>a\<close> and then bulletin \<open>b\<close> of the same key into a new
  report leaves one entry, the result of comparing \<open>a\<close> with \<open>b\<close> (which is \<open>a\<close>,
  \<open>b\<close> or \<open>a\<close> completed from \<open>b\<close>), and a total that holds that entry's counters
  and not the sum of both bulletins.
\<close>

theorem county_bulletin_replaces_contribution:
  "(map_of (priv_county_bulletins r) (hash_of b) = Some e \<longrightarrow>
      fst (pop_county_bulletin (hash_of b) r) = Some e
      \<and> map_of (priv_county_bulletins (snd (pop_county_bulletin (hash_of b) r))) (hash_of b) = None
      \<and> counted (confirmed_cases (priv_auto_calculated_total (snd (pop_county_bulletin (hash_of b) r))))
          = counted (confirmed_cases (priv_auto_calculated_total r)) - counted (confirmed_cases e)
      \<and> counted (deaths (priv_auto_calculated_total (snd (pop_county_bulletin (hash_of b) r))))
          = counted (deaths (priv_auto_calculated_total r)) - counted (deaths e)
      \<and> (confirmed_cases e = None \<longrightarrow>
            confirmed_cases (priv_auto_calculated_total (snd (pop_county_bulletin (hash_of b) r)))
              = confirmed_cases (priv_auto_calculated_total r))
      \<and> (deaths e = None \<longrightarrow>
            deaths (priv_auto_calculated_total (snd (pop_county_bulletin (hash_of b) r)))
              = deaths (priv_auto_calculated_total r))
      \<and> map_of (priv_county_bulletins (add_new_bulletin hash_of eq val (CountyBulletin b) r)) (hash_of b)
          = Some (fst (compare_county_bulletins_and_return_the_completest eq val e b r))
      \<and> counted (confirmed_cases (priv_auto_calculated_total
            (add_new_bulletin hash_of eq val (CountyBulletin b) r)))
          = counted (confirmed_cases (priv_auto_calculated_total r)) - counted (confirmed_cases e)
            + counted (confirmed_cases
                (fst (compare_county_bulletins_and_return_the_completest eq val e b r)))
      \<and> counted (deaths (priv_auto_calculated_total
            (add_new_bulletin hash_of eq val (CountyBulletin b) r)))
          = counted (deaths (priv_auto_calculated_total r)) - counted (deaths e)
            + counted (deaths (fst (compare_county_bulletins_and_return_the_completest eq val e b r))))
   \<and> (init d p s qs = Inr r0 \<and> hash_of a = hash_of b \<longrightarrow>
        priv_county_bulletins (add_all hash_of eq val [CountyBulletin a, CountyBulletin b] r0)
          = [(hash_of b, fst (compare_county_bulletins_and_return_the_completest eq val a b r0))]
        \<and> counted (confirmed_cases (priv_auto_calculated_total
              (add_all hash_of eq val [CountyBulletin a, CountyBulletin b] r0)))
            = counted (confirmed_cases
                (fst (compare_county_bulletins_and_return_the_completest eq val a b r0)))
        \<and> counted (deaths (priv_auto_calculated_total
              (add_all hash_of eq val [CountyBulletin a, CountyBulletin b] r0)))
            = counted (deaths (fst (compare_county_bulletins_and_return_the_completest eq val a b r0)))
        \<and> fst (compare_county_bulletins_and_return_the_completest eq val a b r0)
            \<in> {a, b, merge_data a b})"
proof -
  have one: "fst (pop_county_bulletin (hash_of b) r) = Some e
      \<and> map_of (priv_county_bulletins (snd (pop_county_bulletin (hash_of b) r))) (hash_of b) = None
      \<and> counted (confirmed_cases (priv_auto_calculated_total (snd (pop_county_bulletin (hash_of b) r))))
          = counted (confirmed_cases (priv_auto_calculated_total r)) - counted (confirmed_cases e)
      \<and> counted (deaths (priv_auto_calculated_total (snd (pop_county_bulletin (hash_of b) r))))
          = counted (deaths (priv_auto_calculated_total r)) - counted (deaths e)
      \<and> (confirmed_cases e = None \<longrightarrow>
            confirmed_cases (priv_auto_calculated_total (snd (pop_county_bulletin (hash_of b) r)))
              = confirmed_cases (priv_auto_calculated_total r))
      \<and> (deaths e = None \<longrightarrow>
            deaths (priv_auto_calculated_total (snd (pop_county_bulletin (hash_of b) r)))
              = deaths (priv_auto_calculated_total r))"
    if "map_of (priv_county_bulletins r) (hash_of b) = Some e"
    using that
    by (simp add: pop_county_bulletin_fst pop_county_bulletin_counted AList.delete_conv'
          pop_county_bulletin_absent_counter)
  note two = add_new_county_bulletin_existing(1,2,3) [where r=r and hash_of=hash_of and b=b and e=e]
  have three: "priv_county_bulletins (add_all hash_of eq val [CountyBulletin a, CountyBulletin b] r0)
          = [(hash_of b, fst (compare_county_bulletins_and_return_the_completest eq val a b r0))]
        \<and> counted (confirmed_cases (priv_auto_calculated_total
              (add_all hash_of eq val [CountyBulletin a, CountyBulletin b] r0)))
            = counted (confirmed_cases
                (fst (compare_county_bulletins_and_return_the_completest eq val a b r0)))
        \<and> counted (deaths (priv_auto_calculated_total
              (add_all hash_of eq val [CountyBulletin a, CountyBulletin b] r0)))
            = counted (deaths (fst (compare_county_bulletins_and_return_the_completest eq val a b r0)))"
    if i: "init d p s qs = Inr r0" and h: "hash_of a = hash_of b"
  proof -
    let ?r1 = "add_new_bulletin hash_of eq val (CountyBulletin a) r0"
    have n: "map_of (priv_county_bulletins r0) (hash_of a) = None"
      by (simp add: init_fields(1) [OF i])
    note s1 = add_new_county_bulletin_new [where r=r0 and hash_of=hash_of and b=a, OF n]
    have c1: "priv_county_bulletins ?r1 = [(hash_of b, a)]"
      using s1(1) [of eq val] by (simp add: init_fields(1) [OF i] h)
    then have m: "map_of (priv_county_bulletins ?r1) (hash_of b) = Some a" by simp
    note s2 = add_new_county_bulletin_existing [where r="?r1" and hash_of=hash_of and b=b, OF m]
    have f: "fst (compare_county_bulletins_and_return_the_completest eq val a b ?r1)
               = fst (compare_county_bulletins_and_return_the_completest eq val a b r0)"
      by (rule compare_fst_any_report)
    have t1: "counted (confirmed_cases (priv_auto_calculated_total ?r1)) = counted (confirmed_cases a)"
             "counted (deaths (priv_auto_calculated_total ?r1)) = counted (deaths a)"
      using s1(2,3) [of eq val] by (simp_all add: init_fields(2) [OF i] counted_def)
    show ?thesis
      using s2(2,3,4) [of eq val] c1 t1 f
      by (simp del: add_new_bulletin.simps)
  qed
  show ?thesis
    using one two three compare_result_cases [of eq val a b r0] by blast
qed

theorem county_bulletin_replaces_contribution_witness:
  "map_of (priv_county_bulletins
      (example_report\<lparr>priv_county_bulletins := [(10, example_county ''Campinas'' ''s1'' (Some 10) None)],
         priv_auto_calculated_total := example_bulletin ''sum'' (Some 10) None\<rparr>))
      (example_hash (example_county ''Campinas'' ''s2'' (Some 12) (Some 1)))
     = Some (example_county ''Campinas'' ''s1'' (Some 10) None)
   \<and> map_of (priv_county_bulletins
        (add_new_bulletin example_hash (=) example_val
           (CountyBulletin (example_county ''Campinas'' ''s2'' (Some 12) (Some 1)))
           (example_report\<lparr>priv_county_bulletins :=
                [(10, example_county ''Campinas'' ''s1'' (Some 10) None)],
              priv_auto_calculated_total := example_bulletin ''sum'' (Some 10) None\<rparr>))) 10
     = Some (example_county ''Campinas'' ''s2'' (Some 12) (Some 1))
   \<and> counted (confirmed_cases (priv_auto_calculated_total
        (add_new_bulletin example_hash (=) example_val
           (CountyBulletin (example_county ''Campinas'' ''s2'' (Some 12) (Some 1)))
           (example_report\<lparr>priv_county_bulletins :=
                [(10, example_county ''Campinas'' ''s1'' (Some 10) None)],
              priv_auto_calculated_total := example_bulletin ''sum'' (Some 10) None\<rparr>)))) = 12
   \<and> init (2021, 3, 14) (2021, 3, 15) ''SP'' [COUNTY_BULLETINS] = Inr example_report
   \<and> example_hash (example_county ''Campinas'' ''s1'' (Some 10) None)
       = example_hash (example_county ''Campinas'' ''s2'' (Some 12) (Some 1))
   \<and> priv_county_bulletins
        (add_all example_hash (=) example_val
           [CountyBulletin (example_county ''Campinas'' ''s1'' (Some 10) None),
            CountyBulletin (example_county ''Campinas'' ''s2'' (Some 12) (Some 1))] example_report)
       = [(10, example_county ''Campinas'' ''s2'' (Some 12) (Some 1))]
   \<and> counted (confirmed_cases (priv_auto_calculated_total
        (add_all example_hash (=) example_val
           [CountyBulletin (example_county ''Campinas'' ''s1'' (Some 10) None),
            CountyBulletin (example_county ''Campinas'' ''s2'' (Some 12) (Some 1))] example_report)))
       = 12"
proof -
  let ?e = "example_county ''Campinas'' ''s1'' (Some 10) None"
  let ?b = "example_county ''Campinas'' ''s2'' (Some 12) (Some 1)"
  let ?r = "example_report\<lparr>priv_county_bulletins := [(10, ?e)],
              priv_auto_calculated_total := example_bulletin ''sum'' (Some 10) None\<rparr>"
  have h: "example_hash ?e = 10" "example_hash ?b = 10"
    by (simp_all add: example_hash_def example_county_def)
  have m: "map_of (priv_county_bulletins ?r) (example_hash ?b) = Some ?e"
    by (simp add: h)
  have c: "fst (compare_county_bulletins_and_return_the_completest (=) example_val ?e ?b r) = ?b" for r
    by (simp add: compare_county_bulletins_and_return_the_completest_def example_county_def
          is_complete_def has_confirmed_cases_def has_deaths_def Let_def)
  have v: "counted (confirmed_cases ?e) = 10" "counted (confirmed_cases ?b) = 12"
          "counted (confirmed_cases (priv_auto_calculated_total ?r)) = 10"
    by (simp_all add: counted_def example_county_def example_bulletin_def)
  note t = county_bulletin_replaces_contribution
             [of ?r example_hash ?b ?e "(=)" example_val "(2021, 3, 14)" "(2021, 3, 15)" "''SP''"
                 "[COUNTY_BULLETINS]" example_report ?e]
  from t m have t1:
    "map_of (priv_county_bulletins (add_new_bulletin example_hash (=) example_val (CountyBulletin ?b) ?r))
       (example_hash ?b)
       = Some (fst (compare_county_bulletins_and_return_the_completest (=) example_val ?e ?b ?r))"
    "counted (confirmed_cases (priv_auto_calculated_total
        (add_new_bulletin example_hash (=) example_val (CountyBulletin ?b) ?r)))
       = counted (confirmed_cases (priv_auto_calculated_total ?r)) - counted (confirmed_cases ?e)
         + counted (confirmed_cases
             (fst (compare_county_bulletins_and_return_the_completest (=) example_val ?e ?b ?r)))"
    by blast+
  from t example_report_init h have t2:
    "priv_county_bulletins
        (add_all example_hash (=) example_val [CountyBulletin ?e, CountyBulletin ?b] example_report)
       = [(example_hash ?b,
           fst (compare_county_bulletins_and_return_the_completest (=) example_val ?e ?b example_report))]"
    "counted (confirmed_cases (priv_auto_calculated_total
        (add_all example_hash (=) example_val [CountyBulletin ?e, CountyBulletin ?b] example_report)))
       = counted (confirmed_cases
           (fst (compare_county_bulletins_and_return_the_completest (=) example_val ?e ?b example_report)))"
    by simp_all
  show ?thesis
    using m t1 t2 example_report_init
    by (simp only: c v h) simp
qed

section \<open>An empty county bulletin\<close>

text \<open>
  C10: after an empty county bulletin is ingested its key is in the dictionary and the
  automatic total counts what it counted before; when the key is new, the bulletin
  itself is stored and the total is not touched. In a report that was just constructed and then holds only
  that bulletin, detection does not add \<^verbatim>\<open>MISSING_COUNTY_BULLETINS\<close>, whatever the
  expected qualities (without the bulletin it adds it exactly when
  \<^verbatim>\<open>COUNTY_BULLETINS\<close> is expected), and \<^verbatim>\<open>to_csv_rows\<close> returns the row of the
  imported/undefined placeholder and the row of the total only. The values of the
  warning types differ from one another, as the members of a Python enumeration do.
\<close>

theorem empty_county_bulletin_stored_without_row:
  assumes "is_empty b"
  shows "map_of (priv_county_bulletins (add_new_bulletin hash_of eq val (CountyBulletin b) r))
             (hash_of b) \<noteq> None
         \<and> counted (confirmed_cases (priv_auto_calculated_total
               (add_new_bulletin hash_of eq val (CountyBulletin b) r)))
             = counted (confirmed_cases (priv_auto_calculated_total r))
         \<and> counted (deaths (priv_auto_calculated_total
               (add_new_bulletin hash_of eq val (CountyBulletin b) r)))
             = counted (deaths (priv_auto_calculated_total r))
         \<and> (map_of (priv_county_bulletins r) (hash_of b) = None \<longrightarrow>
            priv_county_bulletins (add_new_bulletin hash_of eq val (CountyBulletin b) r)
              = priv_county_bulletins r @ [(hash_of b, b)]
            \<and> priv_auto_calculated_total (add_new_bulletin hash_of eq val (CountyBulletin b) r)
              = priv_auto_calculated_total r)
         \<and> (init d p s qs = Inr r0 \<and> inj val \<longrightarrow>
              priv_county_bulletins (add_new_bulletin hash_of eq val (CountyBulletin b) r0)
                = [(hash_of b, b)]
              \<and> priv_auto_calculated_total (add_new_bulletin hash_of eq val (CountyBulletin b) r0)
                = new_bulletin d s soma_automatica
              \<and> val MISSING_COUNTY_BULLETINS
                  \<notin> slug ` priv_warnings (auto_detect_warnings val
                        (add_new_bulletin hash_of eq val (CountyBulletin b) r0))
              \<and> (COUNTY_BULLETINS \<in> set qs \<longleftrightarrow>
                   val MISSING_COUNTY_BULLETINS \<in> slug ` priv_warnings (auto_detect_warnings val r0))
              \<and> to_csv_rows to_csv_row (add_new_bulletin hash_of eq val (CountyBulletin b) r0)
                  = Inr [to_csv_row (ImportedUndefinedBulletin (new_bulletin d s nao_encontrada)),
                         to_csv_row (StateTotalBulletin (new_bulletin d s soma_automatica))])"
proof -
  have one: "priv_county_bulletins (add_new_bulletin hash_of eq val (CountyBulletin b) r)
              = priv_county_bulletins r @ [(hash_of b, b)]
            \<and> priv_auto_calculated_total (add_new_bulletin hash_of eq val (CountyBulletin b) r)
              = priv_auto_calculated_total r"
    if n: "map_of (priv_county_bulletins r) (hash_of b) = None" for r
    using add_new_county_bulletin_new(1,5) [where r=r and hash_of=hash_of and b=b, OF n] assms
    by blast
  have two: "priv_county_bulletins (add_new_bulletin hash_of eq val (CountyBulletin b) r0)
                = [(hash_of b, b)]
              \<and> priv_auto_calculated_total (add_new_bulletin hash_of eq val (CountyBulletin b) r0)
                = new_bulletin d s soma_automatica
              \<and> val MISSING_COUNTY_BULLETINS
                  \<notin> slug ` priv_warnings (auto_detect_warnings val
                        (add_new_bulletin hash_of eq val (CountyBulletin b) r0))
              \<and> (COUNTY_BULLETINS \<in> set qs \<longleftrightarrow>
                   val MISSING_COUNTY_BULLETINS \<in> slug ` priv_warnings (auto_detect_warnings val r0))
              \<and> to_csv_rows to_csv_row (add_new_bulletin hash_of eq val (CountyBulletin b) r0)
                  = Inr [to_csv_row (ImportedUndefinedBulletin (new_bulletin d s nao_encontrada)),
                         to_csv_row (StateTotalBulletin (new_bulletin d s soma_automatica))]"
    if i: "init d p s qs = Inr r0" and v: "inj val"
  proof -
    let ?r = "add_new_bulletin hash_of eq val (CountyBulletin b) r0"
    note f = init_fields [OF i]
    have n: "map_of (priv_county_bulletins r0) (hash_of b) = None" by (simp add: f)
    note s = add_new_county_bulletin_new [where r=r0 and hash_of=hash_of and b=b, OF n]
    have c: "priv_county_bulletins ?r = [(hash_of b, b)]" using s(1) [of eq val] by (simp add: f)
    have t: "priv_auto_calculated_total ?r = new_bulletin d s soma_automatica"
      using s(5) [of eq val] assms by (simp add: f)
    have w: "priv_warnings ?r = {}" using s(4) [of eq val] by (simp add: f)
    have ve: "val x = val y \<longleftrightarrow> x = y" for x y using v by (simp add: inj_eq)
    have m: "val MISSING_COUNTY_BULLETINS \<notin> slug ` priv_warnings (auto_detect_warnings val ?r)"
      by (simp del: add_new_bulletin.simps
            add: auto_detect_warnings_detected fold_warning_set_add_slugs w)
         (auto simp del: add_new_bulletin.simps simp: detected_def c ve)
    have m0: "COUNTY_BULLETINS \<in> set qs \<longleftrightarrow>
                val MISSING_COUNTY_BULLETINS \<in> slug ` priv_warnings (auto_detect_warnings val r0)"
      by (simp add: auto_detect_warnings_detected fold_warning_set_add_slugs f)
         (auto simp: detected_def f ve)
    have u: "undefined_or_imported_cases_bulletin ?r = Some (new_bulletin d s nao_encontrada)"
      unfolding add_new_county_bulletin_unfold Let_def by (simp add: f split: option.split)
    have o: "priv_official_total_bulletins ?r = []"
      unfolding add_new_county_bulletin_unfold Let_def by (simp add: f split: option.split)
    have rows: "to_csv_rows to_csv_row ?r
                  = Inr [to_csv_row (ImportedUndefinedBulletin (new_bulletin d s nao_encontrada)),
                         to_csv_row (StateTotalBulletin (new_bulletin d s soma_automatica))]"
      using assms
      by (simp del: add_new_bulletin.simps
            add: to_csv_rows_def county_bulletins_def c u total_bulletin_def o t)
    show ?thesis using c t m m0 rows by blast
  qed
  note zero = add_empty_county_bulletin_any_key [OF assms, of hash_of eq val r]
  show ?thesis using zero one two by blast
qed

theorem empty_county_bulletin_stored_without_row_witness:
  "is_empty (example_county ''Barueri'' ''s1'' None None)
   \<and> init (2021, 3, 14) (2021, 3, 15) ''SP'' [COUNTY_BULLETINS] = Inr example_report
   \<and> inj example_val
   \<and> map_of (priv_county_bulletins example_report)
        (example_hash (example_county ''Barueri'' ''s1'' None None)) = None
   \<and> priv_county_bulletins
        (add_new_bulletin example_hash (=) example_val
           (CountyBulletin (example_county ''Barueri'' ''s1'' None None)) example_report)
       = [(9, example_county ''Barueri'' ''s1'' None None)]
   \<and> priv_auto_calculated_total
        (add_new_bulletin example_hash (=) example_val
           (CountyBulletin (example_county ''Barueri'' ''s1'' None None)) example_report)
       = new_bulletin (2021, 3, 14) ''SP'' soma_automatica
   \<and> ''missing-county-bulletins''
        \<notin> slug ` priv_warnings (auto_detect_warnings example_val
              (add_new_bulletin example_hash (=) example_val
                 (CountyBulletin (example_county ''Barueri'' ''s1'' None None)) example_report))
   \<and> ''missing-county-bulletins''
        \<in> slug ` priv_warnings (auto_detect_warnings example_val example_report)
   \<and> to_csv_rows id
        (add_new_bulletin example_hash (=) example_val
           (CountyBulletin (example_county ''Barueri'' ''s1'' None None)) example_report)
       = Inr [ImportedUndefinedBulletin (new_bulletin (2021, 3, 14) ''SP'' nao_encontrada),
              StateTotalBulletin (new_bulletin (2021, 3, 14) ''SP'' soma_automatica)]"
proof -
  let ?b = "example_county ''Barueri'' ''s1'' None None"
  have e: "is_empty ?b"
    by (simp add: is_empty_def has_confirmed_cases_def has_deaths_def example_county_def)
  have h: "example_hash ?b = 9" by (simp add: example_hash_def example_county_def)
  have n: "map_of (priv_county_bulletins example_report) (example_hash ?b) = None"
    by (simp add: example_report_def)
  have v: "example_val MISSING_COUNTY_BULLETINS = ''missing-county-bulletins''"
    by (simp add: example_val_def)
  have q: "COUNTY_BULLETINS \<in> set [COUNTY_BULLETINS]" by simp
  note t = empty_county_bulletin_stored_without_row
             [OF e, of example_hash "(=)" example_val example_report
                "(2021, 3, 14)" "(2021, 3, 15)" "''SP''" "[COUNTY_BULLETINS]" example_report id]
  from t example_report_init inj_example_val q have
    "priv_county_bulletins
        (add_new_bulletin example_hash (=) example_val (CountyBulletin ?b) example_report)
       = [(example_hash ?b, ?b)]"
    "priv_auto_calculated_total
        (add_new_bulletin example_hash (=) example_val (CountyBulletin ?b) example_report)
       = new_bulletin (2021, 3, 14) ''SP'' soma_automatica"
    "example_val MISSING_COUNTY_BULLETINS
        \<notin> slug ` priv_warnings (auto_detect_warnings example_val
              (add_new_bulletin example_hash (=) example_val (CountyBulletin ?b) example_report))"
    "example_val MISSING_COUNTY_BULLETINS
        \<in> slug ` priv_warnings (auto_detect_warnings example_val example_report)"
    "to_csv_rows id
        (add_new_bulletin example_hash (=) example_val (CountyBulletin ?b) example_report)
       = Inr [id (ImportedUndefinedBulletin (new_bulletin (2021, 3, 14) ''SP'' nao_encontrada)),
              id (StateTotalBulletin (new_bulletin (2021, 3, 14) ''SP'' soma_automatica))]"
    by blast+
  with e n example_report_init inj_example_val show ?thesis
    by (simp only: h v id_apply) simp
qed

section \<open>The automatic total against the stored bulletins\<close>

text \<open>
  After any sequence of \<^verbatim>\<open>add_new_bulletin\<close> calls on a new report, the automatic
  total exceeds what the stored bulletins contribute by the counters of every
  imported/undefined bulletin that a later one replaced. The two agree whenever the
  sequence holds at most one imported/undefined bulletin; the report always holds an
  imported/undefined bulletin.
\<close>

lemma auto_calculated_total_accounting:
  assumes "init d p s qs = Inr r0"
  shows "counted (confirmed_cases (priv_auto_calculated_total (add_all hash_of eq val bs r0)))
           = stored_confirmed_cases (add_all hash_of eq val bs r0)
             + sum_list (map (\<lambda>i. counted (confirmed_cases i)) (butlast (imported bs)))"
    and "counted (deaths (priv_auto_calculated_total (add_all hash_of eq val bs r0)))
           = stored_deaths (add_all hash_of eq val bs r0)
             + sum_list (map (\<lambda>i. counted (deaths i)) (butlast (imported bs)))"
    and "\<exists>u. undefined_or_imported_cases_bulletin (add_all hash_of eq val bs r0) = Some u"
proof -
  note f = init_fields [OF assms]
  have d: "distinct (map fst (priv_county_bulletins r0))" by (simp add: f)
  note a = add_all_accounting [OF d, of hash_of eq val bs]
  have z: "counted (confirmed_cases (priv_auto_calculated_total r0)) = 0"
          "counted (deaths (priv_auto_calculated_total r0)) = 0"
          "county_confirmed_cases r0 = 0" "county_deaths r0 = 0"
    by (simp_all add: f counted_def county_confirmed_cases_def county_deaths_def county_bulletins_def)
  have l: "sum_list (map g xs) = sum_list (map g (butlast xs)) + g (last xs)"
    if "xs \<noteq> []" for g :: "BulletinModel \<Rightarrow> int" and xs
    using that by (induction xs) auto
  show "counted (confirmed_cases (priv_auto_calculated_total (add_all hash_of eq val bs r0)))
           = stored_confirmed_cases (add_all hash_of eq val bs r0)
             + sum_list (map (\<lambda>i. counted (confirmed_cases i)) (butlast (imported bs)))"
  proof (cases "imported bs = []")
    case True
    with a z show ?thesis
      by (simp add: stored_confirmed_cases_def f counted_def county_confirmed_cases_def)
  next
    case False
    with a z l [OF False, of "\<lambda>i. counted (confirmed_cases i)"] show ?thesis
      by (simp add: stored_confirmed_cases_def county_confirmed_cases_def)
  qed
  show "counted (deaths (priv_auto_calculated_total (add_all hash_of eq val bs r0)))
           = stored_deaths (add_all hash_of eq val bs r0)
             + sum_list (map (\<lambda>i. counted (deaths i)) (butlast (imported bs)))"
  proof (cases "imported bs = []")
    case True
    with a z show ?thesis
      by (simp add: stored_deaths_def f counted_def county_deaths_def)
  next
    case False
    with a z l [OF False, of "\<lambda>i. counted (deaths i)"] show ?thesis
      by (simp add: stored_deaths_def county_deaths_def)
  qed
  show "\<exists>u. undefined_or_imported_cases_bulletin (add_all hash_of eq val bs r0) = Some u"
    using a by (simp add: f)
qed

text \<open>
  C1: the specification's invariant is that after every call of \<^verbatim>\<open>add_new_bulletin\<close>
  the automatic total equals the sum over the stored county bulletins and the stored
  imported/undefined bulletin, for confirmed cases and for deaths. The county branch
  keeps it, the imported/undefined branch does not: on a new report, ingesting an
  imported/undefined bulletin with 2 confirmed cases and 1 death and then one with 3
  confirmed cases and 1 death leaves the second one stored, which contributes 3 and 1,
  and an automatic total of 5 and 2.
\<close>

theorem auto_calculated_total_keeps_replaced_imported_bulletin:
  "init (2021, 3, 14) (2021, 3, 15) ''SP'' [COUNTY_BULLETINS] = Inr example_report
   \<and> undefined_or_imported_cases_bulletin
        (add_all example_hash (=) example_val
           [ImportedUndefinedBulletin (example_bulletin ''s1'' (Some 2) (Some 1)),
            ImportedUndefinedBulletin (example_bulletin ''s2'' (Some 3) (Some 1))] example_report)
       = Some (example_bulletin ''s2'' (Some 3) (Some 1))
   \<and> confirmed_cases (priv_auto_calculated_total
        (add_all example_hash (=) example_val
           [ImportedUndefinedBulletin (example_bulletin ''s1'' (Some 2) (Some 1)),
            ImportedUndefinedBulletin (example_bulletin ''s2'' (Some 3) (Some 1))] example_report))
       = Some 5
   \<and> stored_confirmed_cases
        (add_all example_hash (=) example_val
           [ImportedUndefinedBulletin (example_bulletin ''s1'' (Some 2) (Some 1)),
            ImportedUndefinedBulletin (example_bulletin ''s2'' (Some 3) (Some 1))] example_report)
       = 3
   \<and> deaths (priv_auto_calculated_total
        (add_all example_hash (=) example_val
           [ImportedUndefinedBulletin (example_bulletin ''s1'' (Some 2) (Some 1)),
            ImportedUndefinedBulletin (example_bulletin ''s2'' (Some 3) (Some 1))] example_report))
       = Some 2
   \<and> stored_deaths
        (add_all example_hash (=) example_val
           [ImportedUndefinedBulletin (example_bulletin ''s1'' (Some 2) (Some 1)),
            ImportedUndefinedBulletin (example_bulletin ''s2'' (Some 3) (Some 1))] example_report)
       = 1"
  by (simp add: example_report_init)
     (simp add: example_report_def example_bulletin_def add_to_auto_calculated_total_def
        has_confirmed_cases_def has_deaths_def increase_confirmed_cases_def increase_deaths_def
        counted_def new_bulletin_def stored_confirmed_cases_def stored_deaths_def
        county_bulletins_def)

end
